theory Spec2Isabelle
  imports Complex_Main "HOL-Library.Char_ord" "HOL-Library.List_Lexorder"
    "HOL-Library.Product_Lexorder"
begin

section \<open>Numbers, points and shapes\<close>

text \<open>
  The scripts compute with numpy/Python floats. They are modelled by the real numbers:
  rounding and NaN are outside this model. The one non-real value the code can produce,
  \<^verbatim>\<open>float('inf')\<close> at the end of the dispatchers, is a constructor of its own.
\<close>

type_synonym point = "real \<times> real"

datatype pyfloat = Finite real | PosInf

text \<open>\<^verbatim>\<open>distance < 0\<close> on a Python float.\<close>

fun lt_zero :: "pyfloat \<Rightarrow> bool" where
  "lt_zero (Finite d) = (d < 0)"
| "lt_zero PosInf = False"

text \<open>\<^verbatim>\<open>np.linalg.norm\<close> of a vector with two components.\<close>

fun norm2 :: "point \<Rightarrow> real" where
  "norm2 (vx, vy) = sqrt (vx\<^sup>2 + vy\<^sup>2)"

fun vsub :: "point \<Rightarrow> point \<Rightarrow> point" where
  "vsub (ax, ay) (bx, by) = (ax - bx, ay - by)"

fun dot :: "point \<Rightarrow> point \<Rightarrow> real" where
  "dot (ax, ay) (bx, by) = ax * bx + ay * by"

text \<open>\<^verbatim>\<open>np.clip(t, lo, hi)\<close>.\<close>

definition clip :: "real \<Rightarrow> real \<Rightarrow> real \<Rightarrow> real" where
  "clip t lo hi = min (max t lo) hi"

text \<open>
  The shape tag and its parameter tuple, as \<^verbatim>\<open>judge_tp_pad_pin_positions\<close> builds them:
  \<^verbatim>\<open>('RECT', (center, w, h))\<close>, \<^verbatim>\<open>('CIRCLE', (center, r))\<close>, \<^verbatim>\<open>('LINE', (a, b))\<close>.
\<close>

datatype shape = RECT point real real | CIRCLE point real | LINE point point

section \<open>Geometry of criteria_35_4\<close>

text \<open>\<^verbatim>\<open>_dist_point_to_segment(p, a, b)\<close>\<close>

definition dist_point_to_segment :: "point \<Rightarrow> point \<Rightarrow> point \<Rightarrow> real" where
  "dist_point_to_segment p a b =
     (if a = b then norm2 (vsub p a)
      else
        let seg_vec = vsub b a;
            p_vec = vsub p a;
            seg_len_sq = dot seg_vec seg_vec;
            t = clip (dot p_vec seg_vec / seg_len_sq) 0 1;
            closest_point = (fst a + t * fst seg_vec, snd a + t * snd seg_vec)
        in norm2 (vsub p closest_point))"

text \<open>\<^verbatim>\<open>_dist_signed_point_to_rect(p, rect_center, rect_w, rect_h)\<close>\<close>

definition dist_signed_point_to_rect :: "point \<Rightarrow> point \<Rightarrow> real \<Rightarrow> real \<Rightarrow> real" where
  "dist_signed_point_to_rect p rect_center rect_w rect_h =
     (let half_w = rect_w / 2;
          half_h = rect_h / 2;
          delta0 = \<bar>fst p - fst rect_center\<bar> - half_w;
          delta1 = \<bar>snd p - snd rect_center\<bar> - half_h
      in if delta0 \<le> 0 \<and> delta1 \<le> 0 then max delta0 delta1
         else norm2 (max delta0 0, max delta1 0))"

text \<open>
  \<^verbatim>\<open>_calculate_distance(tp_shape, tp_params, pad_shape, pad_params)\<close>. A branch of the
  outer \<^verbatim>\<open>if/elif\<close> chain whose inner chain matches nothing falls out of the chain to the
  final \<^verbatim>\<open>return float('inf')\<close>.
\<close>

fun calculate_distance :: "shape \<Rightarrow> shape \<Rightarrow> pyfloat" where
  "calculate_distance (RECT tp_c tp_w tp_h) (RECT pad_c pad_w pad_h) =
     (let dx = \<bar>fst tp_c - fst pad_c\<bar>;
          dy = \<bar>snd tp_c - snd pad_c\<bar>;
          gap_x = dx - (tp_w / 2 + pad_w / 2);
          gap_y = dy - (tp_h / 2 + pad_h / 2)
      in if gap_x \<le> 0 \<and> gap_y \<le> 0 then Finite (max gap_x gap_y)
         else if gap_x > 0 \<and> gap_y \<le> 0 then Finite gap_x
         else if gap_x \<le> 0 \<and> gap_y > 0 then Finite gap_y
         else Finite (sqrt (gap_x\<^sup>2 + gap_y\<^sup>2)))"
| "calculate_distance (RECT tp_c tp_w tp_h) (CIRCLE pad_c pad_r) =
     Finite (dist_signed_point_to_rect pad_c tp_c tp_w tp_h - pad_r)"
| "calculate_distance (RECT tp_c tp_w tp_h) (LINE pad_a pad_b) = PosInf"
| "calculate_distance (CIRCLE tp_c tp_r) (RECT pad_c pad_w pad_h) =
     Finite (dist_signed_point_to_rect tp_c pad_c pad_w pad_h - tp_r)"
| "calculate_distance (CIRCLE tp_c tp_r) (CIRCLE pad_c pad_r) =
     Finite (norm2 (vsub tp_c pad_c) - (tp_r + pad_r))"
| "calculate_distance (CIRCLE tp_c tp_r) (LINE pad_a pad_b) = PosInf"
| "calculate_distance (LINE tp_a tp_b) (RECT pad_c pad_w pad_h) =
     (let dist_a = dist_signed_point_to_rect tp_a pad_c pad_w pad_h;
          dist_b = dist_signed_point_to_rect tp_b pad_c pad_w pad_h
      in if min dist_a dist_b < 0 then Finite (min dist_a dist_b)
         else
           let rc1 = (fst pad_c - pad_w / 2, snd pad_c - pad_h / 2);
               rc2 = (fst pad_c + pad_w / 2, snd pad_c - pad_h / 2);
               rc3 = (fst pad_c + pad_w / 2, snd pad_c + pad_h / 2);
               rc4 = (fst pad_c - pad_w / 2, snd pad_c + pad_h / 2);
               dist_c1 = dist_point_to_segment rc1 tp_a tp_b;
               dist_c2 = dist_point_to_segment rc2 tp_a tp_b;
               dist_c3 = dist_point_to_segment rc3 tp_a tp_b;
               dist_c4 = dist_point_to_segment rc4 tp_a tp_b
           in Finite (min dist_a (min dist_b (min dist_c1 (min dist_c2 (min dist_c3 dist_c4))))))"
| "calculate_distance (LINE tp_a tp_b) (CIRCLE pad_c pad_r) =
     Finite (dist_point_to_segment pad_c tp_a tp_b - pad_r)"
| "calculate_distance (LINE tp_a tp_b) (LINE pad_a pad_b) = PosInf"

section \<open>Geometry of criteria_37_4\<close>

text \<open>\<^verbatim>\<open>_dist_signed_point_to_rect(p, rect_min, rect_max)\<close> of criteria_37_4.\<close>

definition dist_signed_point_to_rect_37 :: "point \<Rightarrow> point \<Rightarrow> point \<Rightarrow> real" where
  "dist_signed_point_to_rect_37 p rect_min rect_max =
     (let rect_center = ((fst rect_min + fst rect_max) / 2, (snd rect_min + snd rect_max) / 2);
          rect_half = ((fst rect_max - fst rect_min) / 2, (snd rect_max - snd rect_min) / 2);
          delta0 = \<bar>fst p - fst rect_center\<bar> - fst rect_half;
          delta1 = \<bar>snd p - snd rect_center\<bar> - snd rect_half
      in if delta0 \<le> 0 \<and> delta1 \<le> 0 then max delta0 delta1
         else norm2 (max delta0 0, max delta1 0))"

text \<open>
  \<^verbatim>\<open>_calculate_distance(tp_shape, tp_params, component_shape, component_params)\<close> of
  criteria_37_4. The component's parameters are always the pair (min corner, max corner);
  its tag is compared as a string.
\<close>

fun calculate_distance_37 :: "shape \<Rightarrow> string \<Rightarrow> point \<times> point \<Rightarrow> pyfloat" where
  "calculate_distance_37 (CIRCLE tp_c tp_r) component_shape (component_min, component_max) =
     (if component_shape = ''RECT'' \<or> component_shape = ''OTHER''
      then Finite (dist_signed_point_to_rect_37 tp_c component_min component_max - tp_r)
      else if component_shape = ''LINE''
      then Finite (dist_signed_point_to_rect_37 tp_c component_min component_max - tp_r)
      else PosInf)"
| "calculate_distance_37 (RECT c w h) component_shape component_params = PosInf"
| "calculate_distance_37 (LINE a b) component_shape component_params = PosInf"

section \<open>Tables\<close>

text \<open>
  A DataFrame is the list of its rows, in row order; a row is a record of the columns the
  matchers read. \<^verbatim>\<open>df.empty\<close> is \<open>df = []\<close>. Two columns are read with
  \<^verbatim>\<open>row.get(name, 'RECT')\<close> by the older matcher only, so they may be absent (\<open>None\<close>).
\<close>

record tp_row =
  testpoint_id :: string
  tp_shape_type :: "string option"
  tp_x :: real
  tp_y :: real
  tp_width :: real
  tp_height :: real
  tp_layer :: string

record pad_row =
  pad_id :: string
  pad_component_id :: string
  PAD_SHAPE_NAME :: string
  PAD_STACK_NAME :: "string option"
  pad_x :: real
  pad_y :: real
  pad_width :: real
  pad_height :: real
  pad_layer :: string

record component_row =
  component_id :: string
  comp_shape_name :: string
  min_x :: real
  min_y :: real
  max_x :: real
  max_y :: real
  comp_layer :: string

text \<open>
  One row of a result table: the dictionary appended to \<^verbatim>\<open>results\<close>. The first two
  columns are named \<^verbatim>\<open>testpoint_id\<close> and \<^verbatim>\<open>pad_id\<close> or \<^verbatim>\<open>component_id\<close>;
  the names are kept in the table's \<open>columns\<close>.
\<close>

record overlap =
  subject_id :: string
  object_id :: string
  layer :: string
  distance :: real

record 'r result_table =
  columns :: "string list"
  rows :: "'r list"

text \<open>\<^verbatim>\<open>pd.DataFrame()\<close>: no columns, no rows.\<close>

definition empty_frame :: "'r result_table" where
  "empty_frame = \<lparr>columns = [], rows = []\<rparr>"

section \<open>Test point against pad: criteria_35_4\<close>

text \<open>The shape of a test point: always a circle, \<^verbatim>\<open>width\<close> is the diameter.\<close>

definition tp_circle :: "tp_row \<Rightarrow> shape" where
  "tp_circle tp = CIRCLE (tp_x tp, tp_y tp) (tp_width tp / 2)"

text \<open>The shape of a pad, chosen by \<^verbatim>\<open>PAD_SHAPE_NAME\<close>.\<close>

definition pad_shape :: "pad_row \<Rightarrow> shape" where
  "pad_shape pad =
     (if PAD_SHAPE_NAME pad = ''CIRCLE''
      then CIRCLE (pad_x pad, pad_y pad) (pad_width pad / 2)
      else if PAD_SHAPE_NAME pad = ''FIG_SHAPE SHAPE1_5X2_4''
      then LINE (pad_x pad, pad_y pad) (pad_width pad, pad_height pad)
      else RECT (pad_x pad, pad_y pad) (pad_width pad) (pad_height pad))"

text \<open>The inner loop over the pads of one layer, for one test point.\<close>

fun scan_pads :: "string \<Rightarrow> tp_row \<Rightarrow> pad_row list \<Rightarrow> overlap list" where
  "scan_pads layer_name tp [] = []"
| "scan_pads layer_name tp (pad # pads) =
     (case calculate_distance (tp_circle tp) (pad_shape pad) of
        Finite d \<Rightarrow>
          if d < 0
          then \<lparr>subject_id = testpoint_id tp, object_id = pad_id pad,
                layer = layer_name, distance = d\<rparr> # scan_pads layer_name tp pads
          else scan_pads layer_name tp pads
      | PosInf \<Rightarrow> scan_pads layer_name tp pads)"

text \<open>The loop over the test points of one layer.\<close>

fun scan_tps :: "string \<Rightarrow> tp_row list \<Rightarrow> pad_row list \<Rightarrow> overlap list" where
  "scan_tps layer_name [] pads = []"
| "scan_tps layer_name (tp # tps) pads =
     scan_pads layer_name tp pads @ scan_tps layer_name tps pads"

text \<open>One pass of the loop over the two layers; an empty side skips the layer.\<close>

definition scan_layer :: "string \<Rightarrow> tp_row list \<Rightarrow> pad_row list \<Rightarrow> overlap list" where
  "scan_layer layer_name tp_layer_df pad_layer_df =
     (if tp_layer_df = [] \<or> pad_layer_df = [] then []
      else scan_tps layer_name tp_layer_df pad_layer_df)"

definition pad_columns :: "string list" where
  "pad_columns = [''testpoint_id'', ''pad_id'', ''layer'', ''distance'']"

text \<open>
  \<^verbatim>\<open>judge_tp_pad_pin_positions()\<close>. The two tables come from sibling scripts; a source
  that raises is \<open>Inl\<close> of the message, and the function then returns \<^verbatim>\<open>pd.DataFrame()\<close>.
\<close>

definition judge_tp_pad_pin_positions ::
  "string + tp_row list \<Rightarrow> string + pad_row list \<Rightarrow> overlap result_table" where
  "judge_tp_pad_pin_positions tp_src pad_src =
     (case tp_src of
        Inl e \<Rightarrow> empty_frame
      | Inr tp_df \<Rightarrow>
          (case pad_src of
             Inl e \<Rightarrow> empty_frame
           | Inr pad_df \<Rightarrow>
               if tp_df = [] \<or> pad_df = [] then \<lparr>columns = pad_columns, rows = []\<rparr>
               else
                 let tp_top = filter (\<lambda>r. tp_layer r = ''SOLDERMASK_TOP'') tp_df;
                     tp_bottom = filter (\<lambda>r. tp_layer r = ''SOLDERMASK_BOTTOM'') tp_df;
                     pad_top = filter (\<lambda>r. pad_layer r = ''TOP'') pad_df;
                     pad_bottom = filter (\<lambda>r. pad_layer r = ''BOTTOM'') pad_df;
                     results = scan_layer ''TOP'' tp_top pad_top
                               @ scan_layer ''BOTTOM'' tp_bottom pad_bottom
                 in \<lparr>columns = pad_columns, rows = results\<rparr>))"

section \<open>Test point against component: criteria_37_4\<close>

text \<open>The two \<^verbatim>\<open>.map({...})\<close> dictionaries; a layer not in the dictionary maps to NaN.\<close>

definition tp_standard_layer :: "string \<Rightarrow> string option" where
  "tp_standard_layer l =
     (if l = ''SOLDERMASK_TOP'' then Some ''TOP''
      else if l = ''SOLDERMASK_BOTTOM'' then Some ''BOTTOM'' else None)"

definition component_standard_layer :: "string \<Rightarrow> string option" where
  "component_standard_layer l =
     (if l = ''PLACE_BOUND_TOP'' then Some ''TOP''
      else if l = ''PLACE_BOUND_BOTTOM'' then Some ''BOTTOM'' else None)"

definition component_tag :: "component_row \<Rightarrow> string" where
  "component_tag c = (if comp_shape_name c = ''LINE'' then ''LINE'' else ''OTHER'')"

definition component_params :: "component_row \<Rightarrow> point \<times> point" where
  "component_params c = ((min_x c, min_y c), (max_x c, max_y c))"

text \<open>The inner loop over the components of one layer; equal ids are skipped first.\<close>

fun scan_components :: "string \<Rightarrow> tp_row \<Rightarrow> component_row list \<Rightarrow> overlap list" where
  "scan_components layer_name tp [] = []"
| "scan_components layer_name tp (c # cs) =
     (if testpoint_id tp = component_id c then scan_components layer_name tp cs
      else
        case calculate_distance_37 (tp_circle tp) (component_tag c) (component_params c) of
          Finite d \<Rightarrow>
            if d < 0
            then \<lparr>subject_id = testpoint_id tp, object_id = component_id c,
                  layer = layer_name, distance = d\<rparr> # scan_components layer_name tp cs
            else scan_components layer_name tp cs
        | PosInf \<Rightarrow> scan_components layer_name tp cs)"

fun scan_tps_37 :: "string \<Rightarrow> tp_row list \<Rightarrow> component_row list \<Rightarrow> overlap list" where
  "scan_tps_37 layer_name [] cs = []"
| "scan_tps_37 layer_name (tp # tps) cs =
     scan_components layer_name tp cs @ scan_tps_37 layer_name tps cs"

definition scan_layer_37 ::
  "string \<Rightarrow> tp_row list \<Rightarrow> component_row list \<Rightarrow> overlap list" where
  "scan_layer_37 layer_name tp_layer_df component_layer_df =
     (if tp_layer_df = [] \<or> component_layer_df = [] then []
      else scan_tps_37 layer_name tp_layer_df component_layer_df)"

definition component_columns :: "string list" where
  "component_columns = [''testpoint_id'', ''component_id'', ''layer'', ''distance'']"

text \<open>\<^verbatim>\<open>judge_tp_component_coverage()\<close>\<close>

definition judge_tp_component_coverage ::
  "string + tp_row list \<Rightarrow> string + component_row list \<Rightarrow> overlap result_table" where
  "judge_tp_component_coverage tp_src component_src =
     (case tp_src of
        Inl e \<Rightarrow> empty_frame
      | Inr tp_df \<Rightarrow>
          (case component_src of
             Inl e \<Rightarrow> empty_frame
           | Inr component_df \<Rightarrow>
               if tp_df = [] \<or> component_df = []
               then \<lparr>columns = component_columns, rows = []\<rparr>
               else
                 let tp_filtered = filter (\<lambda>r. tp_standard_layer (tp_layer r) \<noteq> None) tp_df;
                     component_filtered =
                       filter (\<lambda>r. component_standard_layer (comp_layer r) \<noteq> None) component_df;
                     tp_top = filter (\<lambda>r. tp_standard_layer (tp_layer r) = Some ''TOP'') tp_filtered;
                     tp_bottom =
                       filter (\<lambda>r. tp_standard_layer (tp_layer r) = Some ''BOTTOM'') tp_filtered;
                     component_top =
                       filter (\<lambda>r. component_standard_layer (comp_layer r) = Some ''TOP'')
                         component_filtered;
                     component_bottom =
                       filter (\<lambda>r. component_standard_layer (comp_layer r) = Some ''BOTTOM'')
                         component_filtered;
                     results = scan_layer_37 ''TOP'' tp_top component_top
                               @ scan_layer_37 ''BOTTOM'' tp_bottom component_bottom
                 in \<lparr>columns = component_columns, rows = results\<rparr>))"

section \<open>Example rows\<close>

text \<open>Concrete rows on which the theorems below are evaluated.\<close>

definition tp_example :: tp_row where
  "tp_example = \<lparr>testpoint_id = ''TP1'', tp_shape_type = None, tp_x = 0, tp_y = 0,
     tp_width = 2, tp_height = 2, tp_layer = ''SOLDERMASK_TOP''\<rparr>"

definition pad_same_id :: pad_row where
  "pad_same_id = \<lparr>pad_id = ''TP1'', pad_component_id = ''TP1'', PAD_SHAPE_NAME = ''CIRCLE'',
     PAD_STACK_NAME = Some ''CIRCLE'', pad_x = 0, pad_y = 0, pad_width = 2, pad_height = 2,
     pad_layer = ''TOP''\<rparr>"

definition pad_line :: pad_row where
  "pad_line = \<lparr>pad_id = ''J1_1'', pad_component_id = ''J1'',
     PAD_SHAPE_NAME = ''FIG_SHAPE SHAPE1_5X2_4'', PAD_STACK_NAME = Some ''FIG_SHAPE SHAPE1_5X2_4'',
     pad_x = -1, pad_y = 0, pad_width = 1, pad_height = 0, pad_layer = ''TOP''\<rparr>"

definition pad_rect :: pad_row where
  "pad_rect = \<lparr>pad_id = ''U1_1'', pad_component_id = ''U1'', PAD_SHAPE_NAME = ''RECTANGLE'',
     PAD_STACK_NAME = Some ''RECTANGLE'', pad_x = 1, pad_y = 0, pad_width = 2, pad_height = 2,
     pad_layer = ''TOP''\<rparr>"

definition component_example :: component_row where
  "component_example = \<lparr>component_id = ''U1'', comp_shape_name = ''RECTANGLE'',
     min_x = -1, min_y = -1, max_x = 1, max_y = 1, comp_layer = ''PLACE_BOUND_TOP''\<rparr>"

definition pad_touching :: pad_row where
  "pad_touching = \<lparr>pad_id = ''U2_1'', pad_component_id = ''U2'', PAD_SHAPE_NAME = ''RECTANGLE'',
     PAD_STACK_NAME = Some ''RECTANGLE'', pad_x = 2, pad_y = 0, pad_width = 2, pad_height = 2,
     pad_layer = ''TOP''\<rparr>"

definition component_touching :: component_row where
  "component_touching = \<lparr>component_id = ''U2'', comp_shape_name = ''RECTANGLE'',
     min_x = 1, min_y = -1, max_x = 3, max_y = 1, comp_layer = ''PLACE_BOUND_TOP''\<rparr>"

section \<open>Net cross-reference joins\<close>

text \<open>
  A row of the two input tables is the pair of the columns read: the id and the net name.
  A missing value (NaN, \<^verbatim>\<open>pd.NA\<close>) is \<open>None\<close>. The connector-pin table of crit_29_2 sets
  \<^verbatim>\<open>pin_id\<close> to \<^verbatim>\<open>pd.NA\<close> on some rows, so ids of crit_29_3 may be missing; criteria_32_3
  formats its ids without a test, and its ids are strings.
\<close>

type_synonym net_row_29 = "string option \<times> string option"
type_synonym net_row_32 = "string \<times> string option"

record match_29 =
  testpoint_id_29 :: "string option"
  pin_id_29 :: "string option"
  net_name_29 :: string
  matching_pairs_29 :: "string option"

record match_32 =
  testpoint_id_32 :: string
  component_id_32 :: string
  net_name_32 :: string
  matching_pairs_32 :: string

text \<open>\<^verbatim>\<open>re.match(r'^\d', net)\<close> on a string of 8-bit characters.\<close>

definition starts_with_digit :: "string \<Rightarrow> bool" where
  "starts_with_digit net = (case net of [] \<Rightarrow> False | c # cs \<Rightarrow> c \<in> set ''0123456789'')"

text \<open>\<^verbatim>\<open>_sort_key(net)\<close>: the tuple \<^verbatim>\<open>(0, net)\<close> or \<^verbatim>\<open>(1, net)\<close>.\<close>

definition sort_key_net :: "string \<Rightarrow> nat \<times> string" where
  "sort_key_net net = (if starts_with_digit net then (0, net) else (1, net))"

text \<open>\<^verbatim>\<open>sort_values\<close> puts a missing value after every present one.\<close>

fun na_last :: "string option \<Rightarrow> nat \<times> string" where
  "na_last (Some s) = (0, s)"
| "na_last None = (1, [])"

text \<open>\<^verbatim>\<open>drop_duplicates()\<close>: of equal rows the first is kept.\<close>

fun drop_duplicates_from :: "'a list \<Rightarrow> 'a list \<Rightarrow> 'a list" where
  "drop_duplicates_from seen [] = []"
| "drop_duplicates_from seen (x # xs) =
     (if x \<in> set seen then drop_duplicates_from seen xs
      else x # drop_duplicates_from (x # seen) xs)"

definition drop_duplicates :: "'a list \<Rightarrow> 'a list" where
  "drop_duplicates xs = drop_duplicates_from [] xs"

subsection \<open>crit_29_3\<close>

definition matching_pair_29 :: "string option \<Rightarrow> string option \<Rightarrow> string option" where
  "matching_pair_29 tp_id pin =
     (case (tp_id, pin) of
        (Some t, Some p) \<Rightarrow> Some (t @ '' - '' @ p)
      | _ \<Rightarrow> None)"

text \<open>
  The body of \<^verbatim>\<open>for net_name in all_net_names\<close>. A column never compares equal to a
  missing net name, so both selections are empty for it.
\<close>

fun rows_for_net_29 :: "net_row_29 list \<Rightarrow> net_row_29 list \<Rightarrow> string option \<Rightarrow> match_29 list" where
  "rows_for_net_29 df_tp df_pin None = []"
| "rows_for_net_29 df_tp df_pin (Some net_name) =
     (let tp_records = filter (\<lambda>r. snd r = Some net_name) df_tp;
          pin_records = filter (\<lambda>r. snd r = Some net_name) df_pin
      in if tp_records \<noteq> [] \<and> pin_records \<noteq> []
         then concat (map (\<lambda>tp_row. map (\<lambda>pin_row.
                \<lparr>testpoint_id_29 = fst tp_row, pin_id_29 = fst pin_row, net_name_29 = net_name,
                 matching_pairs_29 = matching_pair_29 (fst tp_row) (fst pin_row)\<rparr>) pin_records)
              tp_records)
         else [])"

text \<open>
  \<^verbatim>\<open>judge_io_connector_in_tp_network()\<close> of crit_29_3. \<open>all_net_names\<close> is the order in
  which Python iterates the set of net names, which the language does not fix.
\<close>

definition judge_io_connector_in_tp_network_29 ::
  "string option list \<Rightarrow> net_row_29 list \<Rightarrow> net_row_29 list \<Rightarrow> match_29 list" where
  "judge_io_connector_in_tp_network_29 all_net_names df_tp df_pin =
     (if df_tp = [] \<or> df_pin = [] then []
      else
        let result_list = concat (map (rows_for_net_29 df_tp df_pin) all_net_names)
        in if result_list = [] then []
           else sort_key (\<lambda>r. (sort_key_net (net_name_29 r), net_name_29 r,
                               na_last (testpoint_id_29 r), na_last (pin_id_29 r)))
                  (drop_duplicates result_list))"

subsection \<open>criteria_32_3\<close>

fun rows_for_net_32 :: "net_row_32 list \<Rightarrow> net_row_32 list \<Rightarrow> string \<Rightarrow> match_32 list" where
  "rows_for_net_32 tp_data connector_data net_name =
     (let tp_ids = map fst (filter (\<lambda>r. snd r = Some net_name) tp_data);
          component_ids = map fst (filter (\<lambda>r. snd r = Some net_name) connector_data)
      in concat (map (\<lambda>tp_id. map (\<lambda>comp_id.
           \<lparr>testpoint_id_32 = tp_id, component_id_32 = comp_id, net_name_32 = net_name,
            matching_pairs_32 = tp_id @ '' - '' @ comp_id\<rparr>) component_ids) tp_ids))"

text \<open>
  \<^verbatim>\<open>judge_io_connector_in_tp_network()\<close> of criteria_32_3. \<open>common_net_names\<close> is the
  iteration order of the intersection of the two sets of present net names.
\<close>

definition judge_io_connector_in_tp_network_32 ::
  "string list \<Rightarrow> net_row_32 list \<Rightarrow> net_row_32 list \<Rightarrow> match_32 list" where
  "judge_io_connector_in_tp_network_32 common_net_names tp_df connector_df =
     (if tp_df = [] then []
      else if connector_df = [] then []
      else
        let result_rows = concat (map (rows_for_net_32 tp_df connector_df) common_net_names)
        in if result_rows = [] then []
           else sort_key (\<lambda>r. (sort_key_net (net_name_32 r), net_name_32 r,
                               testpoint_id_32 r, component_id_32 r))
                  (drop_duplicates result_rows))"

text \<open>
  The order the specification describes, for two rows given by net name and the two id
  keys: digit-led net names first as a group, then the net name, then the left id, then
  the right id.
\<close>

definition spec_order :: "string \<Rightarrow> 'a::linorder \<Rightarrow> 'a \<Rightarrow> string \<Rightarrow> 'a \<Rightarrow> 'a \<Rightarrow> bool" where
  "spec_order net1 l1 r1 net2 l2 r2 \<longleftrightarrow>
     (starts_with_digit net1 \<and> \<not> starts_with_digit net2)
     \<or> (starts_with_digit net1 = starts_with_digit net2
        \<and> (net1 < net2
           \<or> (net1 = net2 \<and> (l1 < l2 \<or> (l1 = l2 \<and> r1 \<le> r2)))))"

definition tp_nets_example :: "net_row_29 list" where
  "tp_nets_example = [(Some ''A'', Some ''N1''), (Some ''B'', Some ''N2''),
     (Some ''C'', Some ''3V3''), (Some ''D'', None), (Some ''A'', Some ''N1'')]"

definition pin_nets_example :: "net_row_29 list" where
  "pin_nets_example = [(Some ''Y'', Some ''N1''), (Some ''X'', Some ''N1''),
     (Some ''Z'', Some ''3V3''), (None, Some ''3V3''), (Some ''W'', None)]"

text \<open>
  The rows the specification describes: one for every pair of a left and a right entity with
  the same present net name, labelled with the two ids joined by \<^verbatim>\<open>' - '\<close>.
\<close>

definition spec_rows_29 :: "net_row_29 list \<Rightarrow> net_row_29 list \<Rightarrow> match_29 set" where
  "spec_rows_29 df_tp df_pin =
     {\<lparr>testpoint_id_29 = l, pin_id_29 = r, net_name_29 = n,
       matching_pairs_29 = (case (l, r) of (Some t, Some p) \<Rightarrow> Some (t @ '' - '' @ p) | _ \<Rightarrow> None)\<rparr>
        | l r n. (l, Some n) \<in> set df_tp \<and> (r, Some n) \<in> set df_pin}"

definition spec_rows_32 :: "net_row_32 list \<Rightarrow> net_row_32 list \<Rightarrow> match_32 set" where
  "spec_rows_32 tp_df connector_df =
     {\<lparr>testpoint_id_32 = l, component_id_32 = r, net_name_32 = n,
       matching_pairs_32 = l @ '' - '' @ r\<rparr>
        | l r n. (l, Some n) \<in> set tp_df \<and> (r, Some n) \<in> set connector_df}"

definition tp_nets_32_example :: "net_row_32 list" where
  "tp_nets_32_example = [(''A'', Some ''N1''), (''B'', Some ''N2''), (''C'', Some ''3V3''),
     (''D'', None), (''A'', Some ''N1'')]"

definition connector_nets_example :: "net_row_32 list" where
  "connector_nets_example = [(''Y'', Some ''N1''), (''X'', Some ''N1''), (''Z'', Some ''3V3''),
     (''W'', None), (''V'', Some ''N9'')]"

section \<open>The older matcher of criteria_35_4, with a spatial index\<close>

text \<open>
  The older matcher builds shapely geometries, stores their bounding boxes in an rtree
  index and asks the library for the exact intersection test. A geometry is kept as the
  constructor call that builds it. The library is modelled by the plane geometry it
  computes: the buffer of a point is the closed disc that shapely approximates by a
  polygon with vertices on the circle, the four axis extremes among them; a buffer with
  a radius that is not positive is the empty geometry; a polygon built by the two
  factories below is an axis-aligned rectangle.
\<close>

datatype geometry = Buffer point real | LineString point point | Polygon "point list"

text \<open>A bounding box \<^verbatim>\<open>(minx, miny, maxx, maxy)\<close>.\<close>

type_synonym box = "real \<times> real \<times> real \<times> real"

record match_legacy =
  legacy_testpoint_id :: string
  legacy_pad_id :: string
  legacy_distance :: real

text \<open>
  The index refuses the bounds of an empty geometry: \<^verbatim>\<open>idx.insert\<close> and
  \<^verbatim>\<open>idx.intersection\<close> raise \<^verbatim>\<open>RTreeError\<close>, outside every \<^verbatim>\<open>try\<close> of the script.
\<close>

datatype py_error = RTreeError

text \<open>\<^verbatim>\<open>_create_tp_shape(row)\<close>\<close>

definition create_tp_shape :: "tp_row \<Rightarrow> geometry" where
  "create_tp_shape row =
     (let shape_type = (case tp_shape_type row of None \<Rightarrow> ''RECT'' | Some s \<Rightarrow> s);
          x = tp_x row; y = tp_y row; width = tp_width row; height = tp_height row
      in if shape_type = ''CIRCLE'' then Buffer (x, y) (width / 2)
         else if shape_type = ''LINE'' then LineString (x, y) (width, height)
         else
           let half_w = width / 2; half_h = height / 2
           in Polygon [(x - half_w, y - half_h), (x + half_w, y - half_h),
                       (x + half_w, y + half_h), (x - half_w, y + half_h)])"

text \<open>\<^verbatim>\<open>_create_pad_shape(row)\<close>\<close>

definition create_pad_shape :: "pad_row \<Rightarrow> geometry" where
  "create_pad_shape row =
     (let shape_type = (case PAD_STACK_NAME row of None \<Rightarrow> ''RECT'' | Some s \<Rightarrow> s);
          x = pad_x row; y = pad_y row; width = pad_width row; height = pad_height row
      in if shape_type = ''CIRCLE'' then Buffer (x, y) (width / 2)
         else
           let half_w = width / 2; half_h = height / 2
           in Polygon [(x - half_w, y - half_h), (x + half_w, y - half_h),
                       (x + half_w, y + half_h), (x - half_w, y + half_h)])"

subsection \<open>The library: bounding boxes\<close>

definition polygon_box :: "point list \<Rightarrow> box" where
  "polygon_box pts =
     (Min (fst ` set pts), Min (snd ` set pts), Max (fst ` set pts), Max (snd ` set pts))"

definition segment_box :: "point \<Rightarrow> point \<Rightarrow> box" where
  "segment_box a b =
     (min (fst a) (fst b), min (snd a) (snd b), max (fst a) (fst b), max (snd a) (snd b))"

text \<open>\<^verbatim>\<open>shape.bounds\<close>; \<open>None\<close> for an empty geometry.\<close>

fun shape_bounds :: "geometry \<Rightarrow> box option" where
  "shape_bounds (Buffer c r) =
     (if 0 < r then Some (fst c - r, snd c - r, fst c + r, snd c + r) else None)"
| "shape_bounds (LineString a b) = Some (segment_box a b)"
| "shape_bounds (Polygon pts) = (if pts = [] then None else Some (polygon_box pts))"

text \<open>Two boxes meet, borders included: the test of the index query.\<close>

fun boxes_intersect :: "box \<Rightarrow> box \<Rightarrow> bool" where
  "boxes_intersect (minx1, miny1, maxx1, maxy1) (minx2, miny2, maxx2, maxy2) =
     (minx1 \<le> maxx2 \<and> minx2 \<le> maxx1 \<and> miny1 \<le> maxy2 \<and> miny2 \<le> maxy1)"

subsection \<open>The library: the exact intersection test\<close>

text \<open>The distance from a coordinate to the interval from \<open>lo\<close> to \<open>hi\<close>.\<close>

definition axis_gap :: "real \<Rightarrow> real \<Rightarrow> real \<Rightarrow> real" where
  "axis_gap lo hi v = max (lo - v) (max 0 (v - hi))"

text \<open>A disc and a rectangle meet when the nearest point of the rectangle is in the disc.\<close>

fun disc_meets_box :: "point \<Rightarrow> real \<Rightarrow> box \<Rightarrow> bool" where
  "disc_meets_box c r (minx, miny, maxx, maxy) =
     ((axis_gap minx maxx (fst c))\<^sup>2 + (axis_gap miny maxy (snd c))\<^sup>2 \<le> r\<^sup>2)"

definition disc_meets_disc :: "point \<Rightarrow> real \<Rightarrow> point \<Rightarrow> real \<Rightarrow> bool" where
  "disc_meets_disc c1 r1 c2 r2 =
     ((fst c1 - fst c2)\<^sup>2 + (snd c1 - snd c2)\<^sup>2 \<le> (r1 + r2)\<^sup>2)"

text \<open>The point of the segment from \<open>a\<close> to \<open>b\<close> nearest to \<open>p\<close>.\<close>

definition closest_on_segment :: "point \<Rightarrow> point \<Rightarrow> point \<Rightarrow> point" where
  "closest_on_segment p a b =
     (if a = b then a
      else
        let seg_vec = vsub b a;
            t = clip (dot (vsub p a) seg_vec / dot seg_vec seg_vec) 0 1
        in (fst a + t * fst seg_vec, snd a + t * snd seg_vec))"

definition segment_meets_disc :: "point \<Rightarrow> point \<Rightarrow> point \<Rightarrow> real \<Rightarrow> bool" where
  "segment_meets_disc a b c r =
     (let q = closest_on_segment c a b
      in (fst c - fst q)\<^sup>2 + (snd c - snd q)\<^sup>2 \<le> r\<^sup>2)"

text \<open>
  On which side of the line through \<open>a\<close> and \<open>b\<close> the point \<open>p\<close> lies: positive on the
  left, negative on the right, zero on the line.
\<close>

definition side :: "point \<Rightarrow> point \<Rightarrow> point \<Rightarrow> real" where
  "side a b p = (fst b - fst a) * (snd p - snd a) - (snd b - snd a) * (fst p - fst a)"

text \<open>
  A segment and a rectangle meet when their extents meet on both axes and the corners of
  the rectangle are not all strictly on one side of the line of the segment.
\<close>

fun segment_meets_box :: "point \<Rightarrow> point \<Rightarrow> box \<Rightarrow> bool" where
  "segment_meets_box a b (minx, miny, maxx, maxy) =
     (let s1 = side a b (minx, miny); s2 = side a b (maxx, miny);
          s3 = side a b (maxx, maxy); s4 = side a b (minx, maxy)
      in boxes_intersect (segment_box a b) (minx, miny, maxx, maxy)
         \<and> min s1 (min s2 (min s3 s4)) \<le> 0 \<and> 0 \<le> max s1 (max s2 (max s3 s4)))"

definition segment_meets_segment :: "point \<Rightarrow> point \<Rightarrow> point \<Rightarrow> point \<Rightarrow> bool" where
  "segment_meets_segment a b c d =
     (boxes_intersect (segment_box a b) (segment_box c d)
      \<and> min (side a b c) (side a b d) \<le> 0 \<and> 0 \<le> max (side a b c) (side a b d)
      \<and> min (side c d a) (side c d b) \<le> 0 \<and> 0 \<le> max (side c d a) (side c d b))"

text \<open>\<^verbatim>\<open>a.intersects(b)\<close>: the two geometries have a point in common.\<close>

fun intersects :: "geometry \<Rightarrow> geometry \<Rightarrow> bool" where
  "intersects (Buffer c r) (Buffer c' r') = (0 < r \<and> 0 < r' \<and> disc_meets_disc c r c' r')"
| "intersects (Buffer c r) (LineString a b) = (0 < r \<and> segment_meets_disc a b c r)"
| "intersects (Buffer c r) (Polygon pts) =
     (0 < r \<and> pts \<noteq> [] \<and> disc_meets_box c r (polygon_box pts))"
| "intersects (LineString a b) (Buffer c r) = (0 < r \<and> segment_meets_disc a b c r)"
| "intersects (LineString a b) (LineString c d) = segment_meets_segment a b c d"
| "intersects (LineString a b) (Polygon pts) =
     (pts \<noteq> [] \<and> segment_meets_box a b (polygon_box pts))"
| "intersects (Polygon pts) (Buffer c r) =
     (0 < r \<and> pts \<noteq> [] \<and> disc_meets_box c r (polygon_box pts))"
| "intersects (Polygon pts) (LineString a b) =
     (pts \<noteq> [] \<and> segment_meets_box a b (polygon_box pts))"
| "intersects (Polygon pts) (Polygon qs) =
     (pts \<noteq> [] \<and> qs \<noteq> [] \<and> boxes_intersect (polygon_box pts) (polygon_box qs))"

subsection \<open>The matcher\<close>

text \<open>
  The loop \<^verbatim>\<open>idx.insert(i, shape.bounds)\<close> over the pads: the boxes in list order, or
  the error of the first empty shape.
\<close>

fun build_index :: "(geometry \<times> string) list \<Rightarrow> py_error + box list" where
  "build_index [] = Inr []"
| "build_index ((pad_geom, pad_name) # rest) =
     (case shape_bounds pad_geom of
        None \<Rightarrow> Inl RTreeError
      | Some b \<Rightarrow> (case build_index rest of Inl e \<Rightarrow> Inl e | Inr bs \<Rightarrow> Inr (b # bs)))"

text \<open>
  \<^verbatim>\<open>idx.intersection(query)\<close>: the ids of the stored boxes that meet the query box.
  The library does not fix the order of the ids it returns; here they are ascending.
\<close>

definition index_intersection :: "box list \<Rightarrow> box \<Rightarrow> nat list" where
  "index_intersection boxes query =
     filter (\<lambda>i. boxes_intersect (boxes ! i) query) [0..<length boxes]"

text \<open>The loop over the candidate indices of one test point.\<close>

fun scan_candidates ::
  "geometry \<Rightarrow> string \<Rightarrow> (geometry \<times> string) list \<Rightarrow> nat list \<Rightarrow> match_legacy list" where
  "scan_candidates tp_geom tp_id pad_shapes [] = []"
| "scan_candidates tp_geom tp_id pad_shapes (i # candidate_indices) =
     (let (pad_geom, pad_name) = pad_shapes ! i
      in if intersects tp_geom pad_geom
         then \<lparr>legacy_testpoint_id = tp_id, legacy_pad_id = pad_name, legacy_distance = -1\<rparr>
                # scan_candidates tp_geom tp_id pad_shapes candidate_indices
         else scan_candidates tp_geom tp_id pad_shapes candidate_indices)"

text \<open>The loop over the test points; the query of an empty shape raises.\<close>

fun scan_tps_legacy ::
  "box list \<Rightarrow> (geometry \<times> string) list \<Rightarrow> tp_row list \<Rightarrow> py_error + match_legacy list" where
  "scan_tps_legacy boxes pad_shapes [] = Inr []"
| "scan_tps_legacy boxes pad_shapes (tp_row # tps) =
     (let tp_geom = create_tp_shape tp_row;
          tp_id = testpoint_id tp_row
      in case shape_bounds tp_geom of
           None \<Rightarrow> Inl RTreeError
         | Some query \<Rightarrow>
             let candidate_indices = index_intersection boxes query;
                 found = scan_candidates tp_geom tp_id pad_shapes candidate_indices
             in case scan_tps_legacy boxes pad_shapes tps of
                  Inl e \<Rightarrow> Inl e
                | Inr later \<Rightarrow> Inr (found @ later))"

definition legacy_columns :: "string list" where
  "legacy_columns = [''testpoint_id'', ''pad_id'', ''distance'']"

text \<open>
  \<^verbatim>\<open>judge_tp_pad_pin_positions()\<close> of legacy_files/criteria_35_4.py. A source that
  raises is caught and gives \<^verbatim>\<open>pd.DataFrame()\<close>; an error of the index is not caught.
  The id reported for a pad is the row's \<^verbatim>\<open>component_id\<close>.
\<close>

definition judge_tp_pad_pin_positions_legacy ::
  "string + tp_row list \<Rightarrow> string + pad_row list \<Rightarrow> py_error + match_legacy result_table" where
  "judge_tp_pad_pin_positions_legacy tp_src pad_src =
     (case tp_src of
        Inl e \<Rightarrow> Inr empty_frame
      | Inr tp_df \<Rightarrow>
          (case pad_src of
             Inl e \<Rightarrow> Inr empty_frame
           | Inr pad_df \<Rightarrow>
               if tp_df = [] \<or> pad_df = [] then Inr \<lparr>columns = legacy_columns, rows = []\<rparr>
               else
                 let pad_shapes = map (\<lambda>row. (create_pad_shape row, pad_component_id row)) pad_df
                 in case build_index pad_shapes of
                      Inl e \<Rightarrow> Inl e
                    | Inr boxes \<Rightarrow>
                        (case scan_tps_legacy boxes pad_shapes tp_df of
                           Inl e \<Rightarrow> Inl e
                         | Inr results \<Rightarrow> Inr \<lparr>columns = legacy_columns, rows = results\<rparr>)))"

subsection \<open>The nested loop without an index\<close>

text \<open>
  The naive matcher the specification compares with: both loops over all rows, the same
  shapes, the same exact test and the same record, and no index.
\<close>

definition naive_matches :: "tp_row list \<Rightarrow> pad_row list \<Rightarrow> match_legacy list" where
  "naive_matches tp_df pad_df =
     concat (map (\<lambda>tp_row. concat (map (\<lambda>pad_row.
        if intersects (create_tp_shape tp_row) (create_pad_shape pad_row)
        then [\<lparr>legacy_testpoint_id = testpoint_id tp_row,
               legacy_pad_id = pad_component_id pad_row, legacy_distance = -1\<rparr>]
        else []) pad_df)) tp_df)"

subsection \<open>Example rows for the older matcher\<close>

text \<open>The (subject id, object id) pair of a record of either matcher.\<close>

definition legacy_pair :: "match_legacy \<Rightarrow> string \<times> string" where
  "legacy_pair r = (legacy_testpoint_id r, legacy_pad_id r)"

definition overlap_pair :: "overlap \<Rightarrow> string \<times> string" where
  "overlap_pair r = (subject_id r, object_id r)"

definition pad_other_layer :: pad_row where
  "pad_other_layer = \<lparr>pad_id = ''U3'', pad_component_id = ''U3'', PAD_SHAPE_NAME = ''RECTANGLE'',
     PAD_STACK_NAME = Some ''RECTANGLE'', pad_x = 0, pad_y = 0, pad_width = 1, pad_height = 1,
     pad_layer = ''BOTTOM''\<rparr>"

definition pad_touching_same_id :: pad_row where
  "pad_touching_same_id = \<lparr>pad_id = ''U2'', pad_component_id = ''U2'',
     PAD_SHAPE_NAME = ''RECTANGLE'', PAD_STACK_NAME = Some ''RECTANGLE'', pad_x = 2, pad_y = 0,
     pad_width = 2, pad_height = 2, pad_layer = ''TOP''\<rparr>"

definition tp_round :: tp_row where
  "tp_round = \<lparr>testpoint_id = ''TP2'', tp_shape_type = Some ''CIRCLE'', tp_x = 0, tp_y = 0,
     tp_width = 2, tp_height = 2, tp_layer = ''SOLDERMASK_TOP''\<rparr>"

definition pad_far :: pad_row where
  "pad_far = \<lparr>pad_id = ''U4_1'', pad_component_id = ''U4'', PAD_SHAPE_NAME = ''RECTANGLE'',
     PAD_STACK_NAME = Some ''RECTANGLE'', pad_x = 10, pad_y = 10, pad_width = 2, pad_height = 2,
     pad_layer = ''TOP''\<rparr>"

definition pad_corner :: pad_row where
  "pad_corner = \<lparr>pad_id = ''U5_1'', pad_component_id = ''U5'', PAD_SHAPE_NAME = ''RECTANGLE'',
     PAD_STACK_NAME = Some ''RECTANGLE'', pad_x = 2, pad_y = 2, pad_width = 2, pad_height = 2,
     pad_layer = ''TOP''\<rparr>"

definition pad_round :: pad_row where
  "pad_round = \<lparr>pad_id = ''U6_1'', pad_component_id = ''U6'', PAD_SHAPE_NAME = ''CIRCLE'',
     PAD_STACK_NAME = Some ''CIRCLE'', pad_x = 0, pad_y = 2, pad_width = 2, pad_height = 2,
     pad_layer = ''TOP''\<rparr>"

definition pad_empty_circle :: pad_row where
  "pad_empty_circle = \<lparr>pad_id = ''U7_1'', pad_component_id = ''U7'', PAD_SHAPE_NAME = ''CIRCLE'',
     PAD_STACK_NAME = Some ''CIRCLE'', pad_x = 0, pad_y = 0, pad_width = 0, pad_height = 0,
     pad_layer = ''TOP''\<rparr>"

section \<open>Signed distance from a point to a rectangle\<close>

lemma norm2_clamped_le:
  fixes dx dy ex ey :: real
  assumes "max dx 0 \<le> ex" "max dy 0 \<le> ey"
  shows "sqrt ((max dx 0)\<^sup>2 + (max dy 0)\<^sup>2) \<le> sqrt (ex\<^sup>2 + ey\<^sup>2)"
proof -
  have "(max dx 0)\<^sup>2 \<le> ex\<^sup>2" using assms(1) by (intro power_mono) auto
  moreover have "(max dy 0)\<^sup>2 \<le> ey\<^sup>2" using assms(2) by (intro power_mono) auto
  ultimately show ?thesis by (intro real_sqrt_le_mono add_mono)
qed

lemma clamp_axis:
  fixes p c h :: real
  assumes "0 \<le> h"
  shows "\<bar>max (c - h) (min (c + h) p) - c\<bar> \<le> h"
    and "\<bar>p - max (c - h) (min (c + h) p)\<bar> = max (\<bar>p - c\<bar> - h) 0"
  using assms by (auto simp: max_def min_def abs_if)

lemma axis_lower:
  fixes p c q h :: real
  assumes "\<bar>q - c\<bar> \<le> h"
  shows "max (\<bar>p - c\<bar> - h) 0 \<le> \<bar>p - q\<bar>"
  using assms by (auto simp: max_def abs_if split: if_splits)

lemma outside_is_euclidean:
  fixes px py cx cy half_w half_h :: real
  assumes "0 \<le> half_w" "0 \<le> half_h"
    and "\<not> (\<bar>px - cx\<bar> - half_w \<le> 0 \<and> \<bar>py - cy\<bar> - half_h \<le> 0)"
  shows "(\<forall>qx qy. \<bar>qx - cx\<bar> \<le> half_w \<and> \<bar>qy - cy\<bar> \<le> half_h \<longrightarrow>
            dist_signed_point_to_rect (px, py) (cx, cy) (2 * half_w) (2 * half_h)
              \<le> norm2 (vsub (px, py) (qx, qy)))
       \<and> (\<exists>qx qy. \<bar>qx - cx\<bar> \<le> half_w \<and> \<bar>qy - cy\<bar> \<le> half_h \<and>
            dist_signed_point_to_rect (px, py) (cx, cy) (2 * half_w) (2 * half_h)
              = norm2 (vsub (px, py) (qx, qy)))"
proof -
  define d where "d = dist_signed_point_to_rect (px, py) (cx, cy) (2 * half_w) (2 * half_h)"
  have d_eq: "d = sqrt ((max (\<bar>px - cx\<bar> - half_w) 0)\<^sup>2 + (max (\<bar>py - cy\<bar> - half_h) 0)\<^sup>2)"
    using assms(3) unfolding d_def by (auto simp: dist_signed_point_to_rect_def Let_def)
  have n: "norm2 (vsub (px, py) (qx, qy)) = sqrt (\<bar>px - qx\<bar>\<^sup>2 + \<bar>py - qy\<bar>\<^sup>2)" for qx qy
    by simp
  have lower: "d \<le> norm2 (vsub (px, py) (qx, qy))"
    if "\<bar>qx - cx\<bar> \<le> half_w \<and> \<bar>qy - cy\<bar> \<le> half_h" for qx qy
    unfolding d_eq n using that by (intro norm2_clamped_le axis_lower) auto
  let ?qx = "max (cx - half_w) (min (cx + half_w) px)"
  let ?qy = "max (cy - half_h) (min (cy + half_h) py)"
  have "d = norm2 (vsub (px, py) (?qx, ?qy))"
    unfolding d_eq n
    using clamp_axis(2)[OF assms(1), of px cx] clamp_axis(2)[OF assms(2), of py cy] by presburger
  moreover have "\<bar>?qx - cx\<bar> \<le> half_w" "\<bar>?qy - cy\<bar> \<le> half_h"
    using clamp_axis(1)[OF assms(1), of cx px] clamp_axis(1)[OF assms(2), of cy py] by blast+
  ultimately have "\<exists>qx qy. \<bar>qx - cx\<bar> \<le> half_w \<and> \<bar>qy - cy\<bar> \<le> half_h \<and>
      d = norm2 (vsub (px, py) (qx, qy))" by blast
  with lower show ?thesis unfolding d_def by blast
qed

text \<open>
  C2. With \<open>dx = |px - cx| - half_w\<close> and \<open>dy = |py - cy| - half_h\<close>, both variants of the
  signed point-to-rectangle distance (centre and full sizes in criteria_35_4, min and max
  corner in criteria_37_4) return \<open>max dx dy\<close>, which is at most 0, when both deltas are at
  most 0, and otherwise the Euclidean norm of the deltas clamped to be non-negative. For a
  rectangle with non-negative half-extents that norm is the distance from the point to the
  nearest point of the rectangle.
\<close>

theorem dist_signed_point_to_rect_formula:
  fixes px py cx cy half_w half_h :: real
  shows
    "(\<bar>px - cx\<bar> - half_w \<le> 0 \<and> \<bar>py - cy\<bar> - half_h \<le> 0 \<longrightarrow>
        dist_signed_point_to_rect (px, py) (cx, cy) (2 * half_w) (2 * half_h)
          = max (\<bar>px - cx\<bar> - half_w) (\<bar>py - cy\<bar> - half_h)
      \<and> dist_signed_point_to_rect_37 (px, py) (cx - half_w, cy - half_h) (cx + half_w, cy + half_h)
          = max (\<bar>px - cx\<bar> - half_w) (\<bar>py - cy\<bar> - half_h)
      \<and> max (\<bar>px - cx\<bar> - half_w) (\<bar>py - cy\<bar> - half_h) \<le> 0)
   \<and> (\<not> (\<bar>px - cx\<bar> - half_w \<le> 0 \<and> \<bar>py - cy\<bar> - half_h \<le> 0) \<longrightarrow>
        dist_signed_point_to_rect (px, py) (cx, cy) (2 * half_w) (2 * half_h)
          = sqrt ((max (\<bar>px - cx\<bar> - half_w) 0)\<^sup>2 + (max (\<bar>py - cy\<bar> - half_h) 0)\<^sup>2)
      \<and> dist_signed_point_to_rect_37 (px, py) (cx - half_w, cy - half_h) (cx + half_w, cy + half_h)
          = sqrt ((max (\<bar>px - cx\<bar> - half_w) 0)\<^sup>2 + (max (\<bar>py - cy\<bar> - half_h) 0)\<^sup>2))
   \<and> (0 \<le> half_w \<and> 0 \<le> half_h
        \<and> \<not> (\<bar>px - cx\<bar> - half_w \<le> 0 \<and> \<bar>py - cy\<bar> - half_h \<le> 0) \<longrightarrow>
        (\<forall>qx qy. \<bar>qx - cx\<bar> \<le> half_w \<and> \<bar>qy - cy\<bar> \<le> half_h \<longrightarrow>
            dist_signed_point_to_rect (px, py) (cx, cy) (2 * half_w) (2 * half_h)
              \<le> norm2 (vsub (px, py) (qx, qy)))
        \<and> (\<exists>qx qy. \<bar>qx - cx\<bar> \<le> half_w \<and> \<bar>qy - cy\<bar> \<le> half_h \<and>
            dist_signed_point_to_rect (px, py) (cx, cy) (2 * half_w) (2 * half_h)
              = norm2 (vsub (px, py) (qx, qy))))"
proof -
  have a: "\<bar>px - cx\<bar> - half_w \<le> 0 \<and> \<bar>py - cy\<bar> - half_h \<le> 0 \<longrightarrow>
        dist_signed_point_to_rect (px, py) (cx, cy) (2 * half_w) (2 * half_h)
          = max (\<bar>px - cx\<bar> - half_w) (\<bar>py - cy\<bar> - half_h)
      \<and> dist_signed_point_to_rect_37 (px, py) (cx - half_w, cy - half_h) (cx + half_w, cy + half_h)
          = max (\<bar>px - cx\<bar> - half_w) (\<bar>py - cy\<bar> - half_h)
      \<and> max (\<bar>px - cx\<bar> - half_w) (\<bar>py - cy\<bar> - half_h) \<le> 0"
    by (simp add: dist_signed_point_to_rect_def dist_signed_point_to_rect_37_def Let_def)
  have b: "\<not> (\<bar>px - cx\<bar> - half_w \<le> 0 \<and> \<bar>py - cy\<bar> - half_h \<le> 0) \<longrightarrow>
        dist_signed_point_to_rect (px, py) (cx, cy) (2 * half_w) (2 * half_h)
          = sqrt ((max (\<bar>px - cx\<bar> - half_w) 0)\<^sup>2 + (max (\<bar>py - cy\<bar> - half_h) 0)\<^sup>2)
      \<and> dist_signed_point_to_rect_37 (px, py) (cx - half_w, cy - half_h) (cx + half_w, cy + half_h)
          = sqrt ((max (\<bar>px - cx\<bar> - half_w) 0)\<^sup>2 + (max (\<bar>py - cy\<bar> - half_h) 0)\<^sup>2)"
    by (simp add: dist_signed_point_to_rect_def dist_signed_point_to_rect_37_def Let_def)
  show ?thesis
    using a b outside_is_euclidean[of half_w half_h px cx py cy] by blast
qed

theorem dist_signed_point_to_rect_formula_witness:
  "dist_signed_point_to_rect (3, 1) (3, 0) 4 4 = -1
   \<and> dist_signed_point_to_rect_37 (3, 1) (1, -2) (5, 2) = -1
   \<and> dist_signed_point_to_rect (0, 0) (3, 0) 4 4 = 1
   \<and> dist_signed_point_to_rect_37 (0, 0) (1, -2) (5, 2) = 1
   \<and> (\<exists>qx qy::real. \<bar>qx - 3\<bar> \<le> 2 \<and> \<bar>qy - 0\<bar> \<le> 2 \<and> 1 = norm2 (vsub (0, 0) (qx, qy)))"
proof -
  note inside = dist_signed_point_to_rect_formula [of 3 3 2 1 0 2]
  note outside = dist_signed_point_to_rect_formula [of 0 3 2 0 0 2]
  have hyps: "(0::real) \<le> 2 \<and> \<not> (\<bar>0 - 3\<bar> - 2 \<le> (0::real) \<and> \<bar>0 - 0\<bar> - 2 \<le> (0::real))"
    by simp
  have d: "dist_signed_point_to_rect (0, 0) (3, 0) 4 4 = 1"
    "dist_signed_point_to_rect_37 (0, 0) (1, -2) (5, 2) = 1"
    using outside by simp_all
  have "\<exists>qx qy::real. \<bar>qx - 3\<bar> \<le> 2 \<and> \<bar>qy - 0\<bar> \<le> 2 \<and>
      dist_signed_point_to_rect (0, 0) (3, 0) (2 * 2) (2 * 2) = norm2 (vsub (0, 0) (qx, qy))"
    using outside hyps by blast
  then have "\<exists>qx qy::real. \<bar>qx - 3\<bar> \<le> 2 \<and> \<bar>qy - 0\<bar> \<le> 2 \<and> 1 = norm2 (vsub (0, 0) (qx, qy))"
    using d(1) by simp
  with d inside show ?thesis by simp
qed

section \<open>The shape-pair dispatcher\<close>

text \<open>
  C5. Rectangle against rectangle: with the per-axis gap \<open>|centre difference| - (sum of the
  half sizes)\<close>, the distance is the larger gap when both are at most 0, the positive gap
  when exactly one is at most 0, and the Euclidean norm of the two gaps when both are
  positive.
\<close>

theorem calculate_distance_rect_rect:
  fixes ax ay aw ah bx "by" bw bh :: real
  shows
  "(\<bar>ax - bx\<bar> - (aw / 2 + bw / 2) \<le> 0 \<and> \<bar>ay - by\<bar> - (ah / 2 + bh / 2) \<le> 0 \<longrightarrow>
      calculate_distance (RECT (ax, ay) aw ah) (RECT (bx, by) bw bh)
        = Finite (max (\<bar>ax - bx\<bar> - (aw / 2 + bw / 2)) (\<bar>ay - by\<bar> - (ah / 2 + bh / 2))))
   \<and> (\<bar>ax - bx\<bar> - (aw / 2 + bw / 2) > 0 \<and> \<bar>ay - by\<bar> - (ah / 2 + bh / 2) \<le> 0 \<longrightarrow>
      calculate_distance (RECT (ax, ay) aw ah) (RECT (bx, by) bw bh)
        = Finite (\<bar>ax - bx\<bar> - (aw / 2 + bw / 2)))
   \<and> (\<bar>ax - bx\<bar> - (aw / 2 + bw / 2) \<le> 0 \<and> \<bar>ay - by\<bar> - (ah / 2 + bh / 2) > 0 \<longrightarrow>
      calculate_distance (RECT (ax, ay) aw ah) (RECT (bx, by) bw bh)
        = Finite (\<bar>ay - by\<bar> - (ah / 2 + bh / 2)))
   \<and> (\<bar>ax - bx\<bar> - (aw / 2 + bw / 2) > 0 \<and> \<bar>ay - by\<bar> - (ah / 2 + bh / 2) > 0 \<longrightarrow>
      calculate_distance (RECT (ax, ay) aw ah) (RECT (bx, by) bw bh)
        = Finite (sqrt ((\<bar>ax - bx\<bar> - (aw / 2 + bw / 2))\<^sup>2 + (\<bar>ay - by\<bar> - (ah / 2 + bh / 2))\<^sup>2)))"
  by (simp add: Let_def)

lemma sqrt25: "sqrt 25 = 5"
  using real_sqrt_unique [of 5 25] by simp

theorem calculate_distance_rect_rect_witness:
  "calculate_distance (RECT (0, 0) 2 2) (RECT (1, 0) 2 2) = Finite (-1)
   \<and> calculate_distance (RECT (0, 0) 2 2) (RECT (5, 0) 2 2) = Finite 3
   \<and> calculate_distance (RECT (0, 0) 2 2) (RECT (0, 5) 2 2) = Finite 3
   \<and> calculate_distance (RECT (0, 0) 2 2) (RECT (5, 6) 2 2) = Finite 5"
  using calculate_distance_rect_rect [of 0 1 2 2 0 0 2 2]
    calculate_distance_rect_rect [of 0 5 2 2 0 0 2 2]
    calculate_distance_rect_rect [of 0 0 2 2 0 5 2 2]
    calculate_distance_rect_rect [of 0 5 2 2 0 6 2 2]
  by (simp add: sqrt25)

text \<open>
  C8. Circle against circle: the distance is the Euclidean distance of the centres minus
  both radii, and exchanging the two circles does not change it.
\<close>

theorem calculate_distance_circle_circle:
  "calculate_distance (CIRCLE (ax, ay) ra) (CIRCLE (bx, by) rb)
     = Finite (sqrt ((ax - bx)\<^sup>2 + (ay - by)\<^sup>2) - ra - rb)
   \<and> calculate_distance (CIRCLE (ax, ay) ra) (CIRCLE (bx, by) rb)
     = calculate_distance (CIRCLE (bx, by) rb) (CIRCLE (ax, ay) ra)"
  by (simp add: power2_commute add.commute)

section \<open>Evaluating the matchers on the example rows\<close>

lemma rows_tp_pad_rect:
  "rows (judge_tp_pad_pin_positions (Inr [tp_example]) (Inr [pad_rect]))
     = [\<lparr>subject_id = ''TP1'', object_id = ''U1_1'', layer = ''TOP'', distance = -1\<rparr>]"
  by (simp add: judge_tp_pad_pin_positions_def scan_layer_def tp_circle_def pad_shape_def
      tp_example_def pad_rect_def dist_signed_point_to_rect_def)

lemma rows_tp_component:
  "rows (judge_tp_component_coverage (Inr [tp_example]) (Inr [component_example]))
     = [\<lparr>subject_id = ''TP1'', object_id = ''U1'', layer = ''TOP'', distance = -2\<rparr>]"
  by (simp add: judge_tp_component_coverage_def scan_layer_37_def tp_circle_def
      component_tag_def component_params_def tp_standard_layer_def component_standard_layer_def
      tp_example_def component_example_def dist_signed_point_to_rect_37_def)

lemma touching_pad_distance:
  "calculate_distance (tp_circle tp_example) (pad_shape pad_touching) = Finite 0"
  by (simp add: tp_circle_def pad_shape_def tp_example_def pad_touching_def
      dist_signed_point_to_rect_def)

lemma touching_component_distance:
  "calculate_distance_37 (tp_circle tp_example) (component_tag component_touching)
     (component_params component_touching) = Finite 0"
  by (simp add: tp_circle_def component_tag_def component_params_def tp_example_def
      component_touching_def dist_signed_point_to_rect_37_def)

text \<open>
  C4. A circular test point against a line-type pad: the dispatcher has no branch for a
  circle subject and a line object, so it returns \<^verbatim>\<open>float('inf')\<close> for every such pair
  and not the point-to-segment distance minus the radius. The circle of radius 1 around
  the origin and the segment from (-1, 0) to (1, 0) overlap (point-to-segment distance
  minus radius is -1), and the matcher reports nothing.
\<close>

theorem circle_line_falls_through:
  "calculate_distance (CIRCLE c r) (LINE a b) = PosInf
   \<and> dist_point_to_segment (0, 0) (-1, 0) (1, 0) - 1 = -1
   \<and> calculate_distance (tp_circle tp_example) (pad_shape pad_line) = PosInf
   \<and> rows (judge_tp_pad_pin_positions (Inr [tp_example]) (Inr [pad_line])) = []"
  by (simp add: judge_tp_pad_pin_positions_def scan_layer_def tp_circle_def pad_shape_def
      tp_example_def pad_line_def dist_point_to_segment_def clip_def)

text \<open>
  C3. The test-point/pad matcher does not skip equal ids: a test point and a pad that
  carry the same id and overlap are reported as a record whose subject id equals its
  object id.
\<close>

theorem tp_pad_reports_self_pair:
  "rows (judge_tp_pad_pin_positions (Inr [tp_example]) (Inr [pad_same_id]))
     = [\<lparr>subject_id = ''TP1'', object_id = ''TP1'', layer = ''TOP'', distance = -2\<rparr>]
   \<and> testpoint_id tp_example = pad_id pad_same_id"
  by (simp add: judge_tp_pad_pin_positions_def scan_layer_def tp_circle_def pad_shape_def
      tp_example_def pad_same_id_def)

section \<open>The records of the two matchers\<close>

lemma scan_pads_set:
  "set (scan_pads lname tp pads) =
     {\<lparr>subject_id = testpoint_id tp, object_id = pad_id pad, layer = lname, distance = d\<rparr>
        | pad d. pad \<in> set pads \<and> calculate_distance (tp_circle tp) (pad_shape pad) = Finite d \<and> d < 0}"
  by (induction pads) (auto split: pyfloat.splits)

lemma scan_tps_set:
  "set (scan_tps lname tps pads) = (\<Union>tp \<in> set tps. set (scan_pads lname tp pads))"
  by (induction tps) auto

lemma scan_layer_set:
  "set (scan_layer lname tps pads) = (\<Union>tp \<in> set tps. set (scan_pads lname tp pads))"
  by (auto simp: scan_layer_def scan_tps_set)

lemma judge_pad_rows:
  "set (rows (judge_tp_pad_pin_positions (Inr tp_df) (Inr pad_df))) =
     set (scan_layer ''TOP'' (filter (\<lambda>r. tp_layer r = ''SOLDERMASK_TOP'') tp_df)
            (filter (\<lambda>r. pad_layer r = ''TOP'') pad_df))
     \<union> set (scan_layer ''BOTTOM'' (filter (\<lambda>r. tp_layer r = ''SOLDERMASK_BOTTOM'') tp_df)
            (filter (\<lambda>r. pad_layer r = ''BOTTOM'') pad_df))"
  by (simp add: judge_tp_pad_pin_positions_def Let_def scan_layer_def)

lemma judge_pad_mem:
  assumes "r \<in> set (rows (judge_tp_pad_pin_positions (Inr tp_df) (Inr pad_df)))"
  shows "\<exists>tp \<in> set tp_df. \<exists>pad \<in> set pad_df.
           subject_id r = testpoint_id tp \<and> object_id r = pad_id pad
         \<and> calculate_distance (tp_circle tp) (pad_shape pad) = Finite (distance r)
         \<and> distance r < 0
         \<and> (layer r = ''TOP'' \<and> tp_layer tp = ''SOLDERMASK_TOP'' \<and> pad_layer pad = ''TOP''
            \<or> layer r = ''BOTTOM'' \<and> tp_layer tp = ''SOLDERMASK_BOTTOM'' \<and> pad_layer pad = ''BOTTOM'')"
  using assms unfolding judge_pad_rows scan_layer_set scan_pads_set by fastforce

lemma scan_components_set:
  "set (scan_components lname tp cs) =
     {\<lparr>subject_id = testpoint_id tp, object_id = component_id c, layer = lname, distance = d\<rparr>
        | c d. c \<in> set cs \<and> testpoint_id tp \<noteq> component_id c
             \<and> calculate_distance_37 (tp_circle tp) (component_tag c) (component_params c) = Finite d
             \<and> d < 0}"
  by (induction cs) (auto split: pyfloat.splits)

lemma scan_tps_37_set:
  "set (scan_tps_37 lname tps cs) = (\<Union>tp \<in> set tps. set (scan_components lname tp cs))"
  by (induction tps) auto

lemma scan_layer_37_set:
  "set (scan_layer_37 lname tps cs) = (\<Union>tp \<in> set tps. set (scan_components lname tp cs))"
  by (auto simp: scan_layer_37_def scan_tps_37_set)

lemma is_some_and_eq: "((\<exists>y. v = Some y) \<and> v = Some l) \<longleftrightarrow> v = Some l"
  by auto

lemma judge_component_rows:
  "set (rows (judge_tp_component_coverage (Inr tp_df) (Inr component_df))) =
     (\<Union>tp \<in> {r \<in> set tp_df. tp_standard_layer (tp_layer r) = Some ''TOP''}.
        set (scan_components ''TOP'' tp
          (filter (\<lambda>r. component_standard_layer (comp_layer r) = Some ''TOP'') component_df)))
     \<union> (\<Union>tp \<in> {r \<in> set tp_df. tp_standard_layer (tp_layer r) = Some ''BOTTOM''}.
        set (scan_components ''BOTTOM'' tp
          (filter (\<lambda>r. component_standard_layer (comp_layer r) = Some ''BOTTOM'') component_df)))"
proof (cases "tp_df = [] \<or> component_df = []")
  case True
  then show ?thesis
    by (auto simp: judge_tp_component_coverage_def scan_components_set)
next
  case False
  then show ?thesis
    by (simp add: judge_tp_component_coverage_def Let_def is_some_and_eq scan_layer_37_set)
qed

lemma judge_component_mem:
  assumes "r \<in> set (rows (judge_tp_component_coverage (Inr tp_df) (Inr component_df)))"
  shows "\<exists>tp \<in> set tp_df. \<exists>c \<in> set component_df.
           subject_id r = testpoint_id tp \<and> object_id r = component_id c
         \<and> testpoint_id tp \<noteq> component_id c
         \<and> calculate_distance_37 (tp_circle tp) (component_tag c) (component_params c)
             = Finite (distance r)
         \<and> distance r < 0
         \<and> tp_standard_layer (tp_layer tp) = Some (layer r)
         \<and> component_standard_layer (comp_layer c) = Some (layer r)
         \<and> (layer r = ''TOP'' \<or> layer r = ''BOTTOM'')"
  using assms unfolding judge_component_rows scan_components_set by fastforce

text \<open>The test-point/component matcher does skip equal ids.\<close>

lemma component_coverage_excludes_self_pairs:
  assumes "r \<in> set (rows (judge_tp_component_coverage (Inr tp_df) (Inr component_df)))"
  shows "subject_id r \<noteq> object_id r"
  using judge_component_mem[OF assms] by auto



text \<open>
  C7. Every record of either matcher has a strictly negative distance, which is the
  distance computed for a pair of rows with the record's ids; when no pair of rows has a
  negative computed distance (all are zero, positive or infinite), nothing is reported.
\<close>

theorem only_negative_distance_reported:
  "(r \<in> set (rows (judge_tp_pad_pin_positions (Inr tp_df) (Inr pad_df))) \<longrightarrow>
      distance r < 0
      \<and> (\<exists>tp \<in> set tp_df. \<exists>pad \<in> set pad_df.
            subject_id r = testpoint_id tp \<and> object_id r = pad_id pad
          \<and> calculate_distance (tp_circle tp) (pad_shape pad) = Finite (distance r)))
   \<and> (r \<in> set (rows (judge_tp_component_coverage (Inr tp_df) (Inr component_df))) \<longrightarrow>
      distance r < 0
      \<and> (\<exists>tp \<in> set tp_df. \<exists>c \<in> set component_df.
            subject_id r = testpoint_id tp \<and> object_id r = component_id c
          \<and> calculate_distance_37 (tp_circle tp) (component_tag c) (component_params c)
              = Finite (distance r)))
   \<and> ((\<forall>tp \<in> set tp_df. \<forall>pad \<in> set pad_df.
          \<not> lt_zero (calculate_distance (tp_circle tp) (pad_shape pad))) \<longrightarrow>
      rows (judge_tp_pad_pin_positions (Inr tp_df) (Inr pad_df)) = [])
   \<and> ((\<forall>tp \<in> set tp_df. \<forall>c \<in> set component_df.
          \<not> lt_zero (calculate_distance_37 (tp_circle tp) (component_tag c) (component_params c)))
        \<longrightarrow> rows (judge_tp_component_coverage (Inr tp_df) (Inr component_df)) = [])"
proof (intro conjI impI)
  assume "r \<in> set (rows (judge_tp_pad_pin_positions (Inr tp_df) (Inr pad_df)))"
  from judge_pad_mem[OF this]
  show "distance r < 0" by blast
next
  assume "r \<in> set (rows (judge_tp_pad_pin_positions (Inr tp_df) (Inr pad_df)))"
  from judge_pad_mem[OF this]
  show "\<exists>tp \<in> set tp_df. \<exists>pad \<in> set pad_df.
            subject_id r = testpoint_id tp \<and> object_id r = pad_id pad
          \<and> calculate_distance (tp_circle tp) (pad_shape pad) = Finite (distance r)"
    by blast
next
  assume "r \<in> set (rows (judge_tp_component_coverage (Inr tp_df) (Inr component_df)))"
  from judge_component_mem[OF this]
  show "distance r < 0" by blast
next
  assume "r \<in> set (rows (judge_tp_component_coverage (Inr tp_df) (Inr component_df)))"
  from judge_component_mem[OF this]
  show "\<exists>tp \<in> set tp_df. \<exists>c \<in> set component_df.
            subject_id r = testpoint_id tp \<and> object_id r = component_id c
          \<and> calculate_distance_37 (tp_circle tp) (component_tag c) (component_params c)
              = Finite (distance r)"
    by blast
next
  assume a: "\<forall>tp \<in> set tp_df. \<forall>pad \<in> set pad_df.
          \<not> lt_zero (calculate_distance (tp_circle tp) (pad_shape pad))"
  show "rows (judge_tp_pad_pin_positions (Inr tp_df) (Inr pad_df)) = []"
  proof (cases "rows (judge_tp_pad_pin_positions (Inr tp_df) (Inr pad_df))")
    case Nil
    then show ?thesis .
  next
    case (Cons x xs)
    then have "x \<in> set (rows (judge_tp_pad_pin_positions (Inr tp_df) (Inr pad_df)))" by simp
    from judge_pad_mem[OF this] obtain tp pad where
      "tp \<in> set tp_df" "pad \<in> set pad_df"
      "calculate_distance (tp_circle tp) (pad_shape pad) = Finite (distance x)" "distance x < 0"
      by blast
    with a have False by fastforce
    then show ?thesis ..
  qed
next
  assume a: "\<forall>tp \<in> set tp_df. \<forall>c \<in> set component_df.
          \<not> lt_zero (calculate_distance_37 (tp_circle tp) (component_tag c) (component_params c))"
  show "rows (judge_tp_component_coverage (Inr tp_df) (Inr component_df)) = []"
  proof (cases "rows (judge_tp_component_coverage (Inr tp_df) (Inr component_df))")
    case Nil
    then show ?thesis .
  next
    case (Cons x xs)
    then have "x \<in> set (rows (judge_tp_component_coverage (Inr tp_df) (Inr component_df)))"
      by simp
    from judge_component_mem[OF this] obtain tp c where
      "tp \<in> set tp_df" "c \<in> set component_df"
      "calculate_distance_37 (tp_circle tp) (component_tag c) (component_params c)
         = Finite (distance x)" "distance x < 0"
      by blast
    with a have False by fastforce
    then show ?thesis ..
  qed
qed

theorem only_negative_distance_reported_witness:
  "\<lparr>subject_id = ''TP1'', object_id = ''U1_1'', layer = ''TOP'', distance = -1\<rparr>
      \<in> set (rows (judge_tp_pad_pin_positions (Inr [tp_example]) (Inr [pad_rect])))
   \<and> \<lparr>subject_id = ''TP1'', object_id = ''U1'', layer = ''TOP'', distance = -2\<rparr>
      \<in> set (rows (judge_tp_component_coverage (Inr [tp_example]) (Inr [component_example])))
   \<and> calculate_distance (tp_circle tp_example) (pad_shape pad_touching) = Finite 0
   \<and> rows (judge_tp_pad_pin_positions (Inr [tp_example]) (Inr [pad_touching])) = []
   \<and> calculate_distance_37 (tp_circle tp_example) (component_tag component_touching)
       (component_params component_touching) = Finite 0
   \<and> rows (judge_tp_component_coverage (Inr [tp_example]) (Inr [component_touching])) = []"
  using
    only_negative_distance_reported [of
      "\<lparr>subject_id = ''TP1'', object_id = ''U1_1'', layer = ''TOP'', distance = -1\<rparr>"
      "[tp_example]" "[pad_rect]" "[component_example]"]
    only_negative_distance_reported [of
      "\<lparr>subject_id = ''TP1'', object_id = ''U1'', layer = ''TOP'', distance = -2\<rparr>"
      "[tp_example]" "[pad_touching]" "[component_touching]"]
  by (simp add: rows_tp_pad_rect rows_tp_component touching_pad_distance
      touching_component_distance)

text \<open>
  C10. When the test-point table or the pad (component) table is empty, each matcher
  returns the table with its four declared columns and no rows.
\<close>

theorem empty_table_gives_empty_result:
  "(tp_df = [] \<or> pad_df = [] \<longrightarrow>
      judge_tp_pad_pin_positions (Inr tp_df) (Inr pad_df)
        = \<lparr>columns = [''testpoint_id'', ''pad_id'', ''layer'', ''distance''], rows = []\<rparr>)
   \<and> (tp_df = [] \<or> component_df = [] \<longrightarrow>
      judge_tp_component_coverage (Inr tp_df) (Inr component_df)
        = \<lparr>columns = [''testpoint_id'', ''component_id'', ''layer'', ''distance''], rows = []\<rparr>)"
  by (simp add: judge_tp_pad_pin_positions_def judge_tp_component_coverage_def
      pad_columns_def component_columns_def)

theorem empty_table_gives_empty_result_witness:
  "judge_tp_pad_pin_positions (Inr []) (Inr [pad_rect])
     = \<lparr>columns = [''testpoint_id'', ''pad_id'', ''layer'', ''distance''], rows = []\<rparr>
   \<and> judge_tp_component_coverage (Inr [tp_example]) (Inr [])
     = \<lparr>columns = [''testpoint_id'', ''component_id'', ''layer'', ''distance''], rows = []\<rparr>"
  using empty_table_gives_empty_result [of "[]" "[pad_rect]" "[]"]
    empty_table_gives_empty_result [of "[tp_example]" "[pad_rect]" "[]"]
  by simp

section \<open>The net cross-reference joins\<close>

lemma set_drop_duplicates_from:
  "set (drop_duplicates_from seen xs) = set xs - set seen"
  by (induction xs arbitrary: seen) auto

lemma distinct_drop_duplicates_from:
  "distinct (drop_duplicates_from seen xs)"
  by (induction xs arbitrary: seen) (auto simp: set_drop_duplicates_from)

lemma set_drop_duplicates: "set (drop_duplicates xs) = set xs"
  by (simp add: drop_duplicates_def set_drop_duplicates_from)

lemma distinct_drop_duplicates: "distinct (drop_duplicates xs)"
  by (simp add: drop_duplicates_def distinct_drop_duplicates_from)

lemma set_rows_for_net_29:
  "set (rows_for_net_29 df_tp df_pin (Some n)) =
     {\<lparr>testpoint_id_29 = l, pin_id_29 = r, net_name_29 = n,
       matching_pairs_29 = matching_pair_29 l r\<rparr>
        | l r. (l, Some n) \<in> set df_tp \<and> (r, Some n) \<in> set df_pin}"
  by (auto simp: Let_def filter_empty_conv image_iff) force+

lemma set_rows_for_net_32:
  "set (rows_for_net_32 tp_data connector_data n) =
     {\<lparr>testpoint_id_32 = l, component_id_32 = r, net_name_32 = n,
       matching_pairs_32 = l @ '' - '' @ r\<rparr>
        | l r. (l, Some n) \<in> set tp_data \<and> (r, Some n) \<in> set connector_data}"
  by (auto simp: Let_def image_iff)

lemma key_le_spec_order:
  assumes "(sort_key_net n1, n1, l1, r1) \<le> (sort_key_net n2, n2, l2, r2)"
  shows "spec_order n1 l1 r1 n2 l2 r2"
  using assms by (auto simp: sort_key_net_def spec_order_def split: if_splits)

lemma set_concat_rows_29:
  assumes "set all_net_names = snd ` set df_tp \<union> snd ` set df_pin"
  shows "set (concat (map (rows_for_net_29 df_tp df_pin) all_net_names))
           = spec_rows_29 df_tp df_pin"
proof (intro set_eqI iffI)
  fix m assume "m \<in> set (concat (map (rows_for_net_29 df_tp df_pin) all_net_names))"
  then obtain k where k: "k \<in> set all_net_names" "m \<in> set (rows_for_net_29 df_tp df_pin k)"
    by auto
  from k(2) obtain n where "k = Some n" by (cases k) auto
  with k(2) have "m \<in> set (rows_for_net_29 df_tp df_pin (Some n))" by simp
  then show "m \<in> spec_rows_29 df_tp df_pin"
    unfolding set_rows_for_net_29 spec_rows_29_def matching_pair_29_def by blast
next
  fix m assume "m \<in> spec_rows_29 df_tp df_pin"
  then obtain l r n where m: "(l, Some n) \<in> set df_tp" "(r, Some n) \<in> set df_pin"
    "m = \<lparr>testpoint_id_29 = l, pin_id_29 = r, net_name_29 = n,
          matching_pairs_29 = matching_pair_29 l r\<rparr>"
    unfolding spec_rows_29_def matching_pair_29_def by blast
  from m(1) have "Some n \<in> snd ` set df_tp" by force
  with assms have "Some n \<in> set all_net_names" by simp
  moreover from m have "m \<in> set (rows_for_net_29 df_tp df_pin (Some n))"
    unfolding set_rows_for_net_29 by blast
  ultimately show "m \<in> set (concat (map (rows_for_net_29 df_tp df_pin) all_net_names))"
    unfolding set_concat set_map by blast
qed

lemma judge_29_cases:
  assumes "set all_net_names = snd ` set df_tp \<union> snd ` set df_pin"
  shows "(judge_io_connector_in_tp_network_29 all_net_names df_tp df_pin = []
            \<and> spec_rows_29 df_tp df_pin = {})
       \<or> (\<exists>res. set res = spec_rows_29 df_tp df_pin
            \<and> judge_io_connector_in_tp_network_29 all_net_names df_tp df_pin
              = sort_key (\<lambda>r. (sort_key_net (net_name_29 r), net_name_29 r,
                                na_last (testpoint_id_29 r), na_last (pin_id_29 r)))
                  (drop_duplicates res))"
proof (cases "df_tp = [] \<or> df_pin = []")
  case True
  then have "spec_rows_29 df_tp df_pin = {}" by (auto simp: spec_rows_29_def)
  with True show ?thesis by (simp add: judge_io_connector_in_tp_network_29_def)
next
  case False
  let ?res = "concat (map (rows_for_net_29 df_tp df_pin) all_net_names)"
  note S = set_concat_rows_29[OF assms]
  show ?thesis
  proof (cases "?res = []")
    case True
    with S have "spec_rows_29 df_tp df_pin = {}" by simp
    with True False show ?thesis
      by (simp add: judge_io_connector_in_tp_network_29_def)
  next
    case nonempty: False
    with False have "judge_io_connector_in_tp_network_29 all_net_names df_tp df_pin
              = sort_key (\<lambda>r. (sort_key_net (net_name_29 r), net_name_29 r,
                                na_last (testpoint_id_29 r), na_last (pin_id_29 r)))
                  (drop_duplicates ?res)"
      by (auto simp: judge_io_connector_in_tp_network_29_def Let_def)
    with S show ?thesis by blast
  qed
qed

lemma judge_29_correct:
  assumes "set all_net_names = snd ` set df_tp \<union> snd ` set df_pin"
  shows "set (judge_io_connector_in_tp_network_29 all_net_names df_tp df_pin)
           = spec_rows_29 df_tp df_pin"
    and "distinct (judge_io_connector_in_tp_network_29 all_net_names df_tp df_pin)"
    and "sorted_wrt (\<lambda>a b. spec_order (net_name_29 a) (na_last (testpoint_id_29 a))
                        (na_last (pin_id_29 a)) (net_name_29 b) (na_last (testpoint_id_29 b))
                        (na_last (pin_id_29 b)))
           (judge_io_connector_in_tp_network_29 all_net_names df_tp df_pin)"
proof -
  let ?k = "\<lambda>r. (sort_key_net (net_name_29 r), net_name_29 r,
                  na_last (testpoint_id_29 r), na_last (pin_id_29 r))"
  let ?J = "judge_io_connector_in_tp_network_29 all_net_names df_tp df_pin"
  from judge_29_cases[OF assms]
  consider "?J = []" "spec_rows_29 df_tp df_pin = {}"
    | res where "set res = spec_rows_29 df_tp df_pin" "?J = sort_key ?k (drop_duplicates res)"
    by blast
  then have "set ?J = spec_rows_29 df_tp df_pin \<and> distinct ?J \<and> sorted (map ?k ?J)"
  proof cases
    case 1
    then show ?thesis by simp
  next
    case 2
    then show ?thesis
      by (simp add: set_drop_duplicates distinct_drop_duplicates)
  qed
  then show "set ?J = spec_rows_29 df_tp df_pin" "distinct ?J"
    "sorted_wrt (\<lambda>a b. spec_order (net_name_29 a) (na_last (testpoint_id_29 a))
                        (na_last (pin_id_29 a)) (net_name_29 b) (na_last (testpoint_id_29 b))
                        (na_last (pin_id_29 b))) ?J"
    by (auto simp: sorted_map intro: key_le_spec_order elim!: sorted_wrt_mono_rel[rotated])
qed

lemma set_concat_rows_32:
  assumes "set common_net_names
             = {n. Some n \<in> snd ` set tp_df} \<inter> {n. Some n \<in> snd ` set connector_df}"
  shows "set (concat (map (rows_for_net_32 tp_df connector_df) common_net_names))
           = spec_rows_32 tp_df connector_df"
proof (intro set_eqI iffI)
  fix m assume "m \<in> set (concat (map (rows_for_net_32 tp_df connector_df) common_net_names))"
  then obtain n where "m \<in> set (rows_for_net_32 tp_df connector_df n)"
    unfolding set_concat set_map by blast
  then show "m \<in> spec_rows_32 tp_df connector_df"
    unfolding set_rows_for_net_32 spec_rows_32_def by blast
next
  fix m assume "m \<in> spec_rows_32 tp_df connector_df"
  then obtain l r n where m: "(l, Some n) \<in> set tp_df" "(r, Some n) \<in> set connector_df"
    "m = \<lparr>testpoint_id_32 = l, component_id_32 = r, net_name_32 = n,
          matching_pairs_32 = l @ '' - '' @ r\<rparr>"
    unfolding spec_rows_32_def by blast
  from m(1,2) have "Some n \<in> snd ` set tp_df" "Some n \<in> snd ` set connector_df" by force+
  with assms have "n \<in> set common_net_names" by simp
  moreover from m have "m \<in> set (rows_for_net_32 tp_df connector_df n)"
    unfolding set_rows_for_net_32 by blast
  ultimately show "m \<in> set (concat (map (rows_for_net_32 tp_df connector_df) common_net_names))"
    unfolding set_concat set_map by blast
qed

lemma judge_32_cases:
  assumes "set common_net_names
             = {n. Some n \<in> snd ` set tp_df} \<inter> {n. Some n \<in> snd ` set connector_df}"
  shows "(judge_io_connector_in_tp_network_32 common_net_names tp_df connector_df = []
            \<and> spec_rows_32 tp_df connector_df = {})
       \<or> (\<exists>res. set res = spec_rows_32 tp_df connector_df
            \<and> judge_io_connector_in_tp_network_32 common_net_names tp_df connector_df
              = sort_key (\<lambda>r. (sort_key_net (net_name_32 r), net_name_32 r,
                                testpoint_id_32 r, component_id_32 r))
                  (drop_duplicates res))"
proof (cases "tp_df = [] \<or> connector_df = []")
  case True
  then have "spec_rows_32 tp_df connector_df = {}" by (auto simp: spec_rows_32_def)
  with True show ?thesis by (auto simp: judge_io_connector_in_tp_network_32_def)
next
  case False
  let ?res = "concat (map (rows_for_net_32 tp_df connector_df) common_net_names)"
  note S = set_concat_rows_32[OF assms]
  show ?thesis
  proof (cases "?res = []")
    case True
    with S have "spec_rows_32 tp_df connector_df = {}" by simp
    with True False show ?thesis
      by (simp add: judge_io_connector_in_tp_network_32_def)
  next
    case nonempty: False
    with False have "judge_io_connector_in_tp_network_32 common_net_names tp_df connector_df
              = sort_key (\<lambda>r. (sort_key_net (net_name_32 r), net_name_32 r,
                                testpoint_id_32 r, component_id_32 r))
                  (drop_duplicates ?res)"
      by (auto simp: judge_io_connector_in_tp_network_32_def Let_def
          simp del: rows_for_net_32.simps)
    with S show ?thesis by blast
  qed
qed

lemma judge_32_correct:
  assumes "set common_net_names
             = {n. Some n \<in> snd ` set tp_df} \<inter> {n. Some n \<in> snd ` set connector_df}"
  shows "set (judge_io_connector_in_tp_network_32 common_net_names tp_df connector_df)
           = spec_rows_32 tp_df connector_df"
    and "distinct (judge_io_connector_in_tp_network_32 common_net_names tp_df connector_df)"
    and "sorted_wrt (\<lambda>a b. spec_order (net_name_32 a) (testpoint_id_32 a) (component_id_32 a)
                        (net_name_32 b) (testpoint_id_32 b) (component_id_32 b))
           (judge_io_connector_in_tp_network_32 common_net_names tp_df connector_df)"
proof -
  let ?k = "\<lambda>r. (sort_key_net (net_name_32 r), net_name_32 r,
                  testpoint_id_32 r, component_id_32 r)"
  let ?J = "judge_io_connector_in_tp_network_32 common_net_names tp_df connector_df"
  from judge_32_cases[OF assms]
  consider "?J = []" "spec_rows_32 tp_df connector_df = {}"
    | res where "set res = spec_rows_32 tp_df connector_df"
        "?J = sort_key ?k (drop_duplicates res)"
    by blast
  then have "set ?J = spec_rows_32 tp_df connector_df \<and> distinct ?J \<and> sorted (map ?k ?J)"
  proof cases
    case 1
    then show ?thesis by simp
  next
    case 2
    then show ?thesis
      by (simp add: set_drop_duplicates distinct_drop_duplicates)
  qed
  then show "set ?J = spec_rows_32 tp_df connector_df" "distinct ?J"
    "sorted_wrt (\<lambda>a b. spec_order (net_name_32 a) (testpoint_id_32 a) (component_id_32 a)
                        (net_name_32 b) (testpoint_id_32 b) (component_id_32 b)) ?J"
    by (auto simp: sorted_map intro: key_le_spec_order elim!: sorted_wrt_mono_rel[rotated])
qed

lemma judge_29_example:
  "judge_io_connector_in_tp_network_29 [Some ''N1'', None, Some ''N2'', Some ''3V3'']
     tp_nets_example pin_nets_example
   = [\<lparr>testpoint_id_29 = Some ''C'', pin_id_29 = Some ''Z'', net_name_29 = ''3V3'',
        matching_pairs_29 = Some ''C - Z''\<rparr>,
      \<lparr>testpoint_id_29 = Some ''C'', pin_id_29 = None, net_name_29 = ''3V3'',
        matching_pairs_29 = None\<rparr>,
      \<lparr>testpoint_id_29 = Some ''A'', pin_id_29 = Some ''X'', net_name_29 = ''N1'',
        matching_pairs_29 = Some ''A - X''\<rparr>,
      \<lparr>testpoint_id_29 = Some ''A'', pin_id_29 = Some ''Y'', net_name_29 = ''N1'',
        matching_pairs_29 = Some ''A - Y''\<rparr>]"
  by (simp add: judge_io_connector_in_tp_network_29_def tp_nets_example_def
      pin_nets_example_def drop_duplicates_def matching_pair_29_def sort_key_net_def
      starts_with_digit_def)

lemma judge_32_example:
  "judge_io_connector_in_tp_network_32 [''N1'', ''3V3''] tp_nets_32_example connector_nets_example
   = [\<lparr>testpoint_id_32 = ''C'', component_id_32 = ''Z'', net_name_32 = ''3V3'',
        matching_pairs_32 = ''C - Z''\<rparr>,
      \<lparr>testpoint_id_32 = ''A'', component_id_32 = ''X'', net_name_32 = ''N1'',
        matching_pairs_32 = ''A - X''\<rparr>,
      \<lparr>testpoint_id_32 = ''A'', component_id_32 = ''Y'', net_name_32 = ''N1'',
        matching_pairs_32 = ''A - Y''\<rparr>]"
  by (simp add: judge_io_connector_in_tp_network_32_def tp_nets_32_example_def
      connector_nets_example_def drop_duplicates_def sort_key_net_def starts_with_digit_def)

text \<open>
  C9. For any order in which the set of net names is iterated, both joins return exactly
  the rows for the pairs of a left and a right entity with the same present net name
  (entities without a net name take no part), each row labelled with the two ids joined by
  the separator, without duplicate rows, and ordered with digit-led net names first, then
  by net name, then by left id, then by right id. In crit_29_3 an id may be missing: the
  label is then missing too, and a missing id sorts after every present one.
\<close>

theorem net_join_correct:
  assumes "set all_net_names = snd ` set df_tp \<union> snd ` set df_pin"
    and "set common_net_names
           = {n. Some n \<in> snd ` set tp_df} \<inter> {n. Some n \<in> snd ` set connector_df}"
  shows
    "(set (judge_io_connector_in_tp_network_29 all_net_names df_tp df_pin)
        = spec_rows_29 df_tp df_pin
      \<and> distinct (judge_io_connector_in_tp_network_29 all_net_names df_tp df_pin)
      \<and> sorted_wrt (\<lambda>a b. spec_order (net_name_29 a) (na_last (testpoint_id_29 a))
                        (na_last (pin_id_29 a)) (net_name_29 b) (na_last (testpoint_id_29 b))
                        (na_last (pin_id_29 b)))
           (judge_io_connector_in_tp_network_29 all_net_names df_tp df_pin))
   \<and> (set (judge_io_connector_in_tp_network_32 common_net_names tp_df connector_df)
        = spec_rows_32 tp_df connector_df
      \<and> distinct (judge_io_connector_in_tp_network_32 common_net_names tp_df connector_df)
      \<and> sorted_wrt (\<lambda>a b. spec_order (net_name_32 a) (testpoint_id_32 a) (component_id_32 a)
                        (net_name_32 b) (testpoint_id_32 b) (component_id_32 b))
           (judge_io_connector_in_tp_network_32 common_net_names tp_df connector_df))"
  using judge_29_correct[OF assms(1)] judge_32_correct[OF assms(2)] by blast

theorem net_join_correct_witness:
  "set [Some ''N1'', None, Some ''N2'', Some ''3V3'']
     = snd ` set tp_nets_example \<union> snd ` set pin_nets_example
   \<and> set [''N1'', ''3V3'']
     = {n. Some n \<in> snd ` set tp_nets_32_example}
       \<inter> {n. Some n \<in> snd ` set connector_nets_example}
   \<and> set (judge_io_connector_in_tp_network_29 [Some ''N1'', None, Some ''N2'', Some ''3V3'']
          tp_nets_example pin_nets_example)
     = spec_rows_29 tp_nets_example pin_nets_example
   \<and> set (judge_io_connector_in_tp_network_32 [''N1'', ''3V3''] tp_nets_32_example
          connector_nets_example)
     = spec_rows_32 tp_nets_32_example connector_nets_example
   \<and> map net_name_29 (judge_io_connector_in_tp_network_29
          [Some ''N1'', None, Some ''N2'', Some ''3V3''] tp_nets_example pin_nets_example)
     = [''3V3'', ''3V3'', ''N1'', ''N1'']
   \<and> map matching_pairs_32 (judge_io_connector_in_tp_network_32 [''N1'', ''3V3'']
          tp_nets_32_example connector_nets_example)
     = [''C - Z'', ''A - X'', ''A - Y'']"
proof -
  have h1: "set [Some ''N1'', None, Some ''N2'', Some ''3V3'']
     = snd ` set tp_nets_example \<union> snd ` set pin_nets_example"
    by (auto simp: tp_nets_example_def pin_nets_example_def)
  have h2: "set [''N1'', ''3V3'']
     = {n. Some n \<in> snd ` set tp_nets_32_example}
       \<inter> {n. Some n \<in> snd ` set connector_nets_example}"
    by (auto simp: tp_nets_32_example_def connector_nets_example_def)
  from net_join_correct [OF h1 h2] h1 h2 show ?thesis
    by (simp add: judge_29_example judge_32_example)
qed

section \<open>The spatial index of the older matcher\<close>

subsection \<open>Shapes that intersect have bounding boxes that meet\<close>

lemma sum_squares_bound:
  fixes x y r :: real
  assumes "x\<^sup>2 + y\<^sup>2 \<le> r\<^sup>2" "0 \<le> r"
  shows "\<bar>x\<bar> \<le> r" "\<bar>y\<bar> \<le> r"
proof -
  have "x\<^sup>2 \<le> r\<^sup>2" "y\<^sup>2 \<le> r\<^sup>2"
    using assms(1) zero_le_power2[of x] zero_le_power2[of y] by linarith+
  then show "\<bar>x\<bar> \<le> r" "\<bar>y\<bar> \<le> r"
    using assms(2) by (simp_all add: abs_le_square_iff[symmetric])
qed

lemma boxes_intersect_sym: "boxes_intersect a b = boxes_intersect b a"
  by (cases a; cases b) auto

lemma disc_meets_box_sound:
  assumes "0 < r" "disc_meets_box c r bx"
  shows "boxes_intersect (fst c - r, snd c - r, fst c + r, snd c + r) bx"
proof -
  obtain minx miny maxx maxy where bx: "bx = (minx, miny, maxx, maxy)"
    by (cases bx) auto
  from assms(2) have
    "(axis_gap minx maxx (fst c))\<^sup>2 + (axis_gap miny maxy (snd c))\<^sup>2 \<le> r\<^sup>2"
    by (simp add: bx)
  from sum_squares_bound[OF this] assms(1)
  have "\<bar>axis_gap minx maxx (fst c)\<bar> \<le> r" "\<bar>axis_gap miny maxy (snd c)\<bar> \<le> r"
    by simp_all
  then show ?thesis
    by (auto simp: bx axis_gap_def max_def split: if_splits)
qed

lemma disc_meets_disc_sound:
  assumes "0 < r1" "0 < r2" "disc_meets_disc c1 r1 c2 r2"
  shows "boxes_intersect (fst c1 - r1, snd c1 - r1, fst c1 + r1, snd c1 + r1)
           (fst c2 - r2, snd c2 - r2, fst c2 + r2, snd c2 + r2)"
proof -
  from assms(3) have "(fst c1 - fst c2)\<^sup>2 + (snd c1 - snd c2)\<^sup>2 \<le> (r1 + r2)\<^sup>2"
    by (simp add: disc_meets_disc_def)
  from sum_squares_bound[OF this] assms(1,2)
  have "\<bar>fst c1 - fst c2\<bar> \<le> r1 + r2" "\<bar>snd c1 - snd c2\<bar> \<le> r1 + r2"
    by simp_all
  then show ?thesis by (auto simp: abs_if split: if_splits)
qed

lemma between_convex:
  fixes u v t :: real
  assumes "0 \<le> t" "t \<le> 1"
  shows "min u v \<le> u + t * (v - u)" "u + t * (v - u) \<le> max u v"
proof -
  have a: "u + t * (v - u) = (1 - t) * u + t * v" by (simp add: algebra_simps)
  have "(1 - t) * min u v \<le> (1 - t) * u" "t * min u v \<le> t * v"
    using assms by (auto intro: mult_left_mono)
  then have "(1 - t) * min u v + t * min u v \<le> (1 - t) * u + t * v" by linarith
  then show "min u v \<le> u + t * (v - u)" unfolding a by (simp add: algebra_simps)
  have "(1 - t) * u \<le> (1 - t) * max u v" "t * v \<le> t * max u v"
    using assms by (auto intro: mult_left_mono)
  then have "(1 - t) * u + t * v \<le> (1 - t) * max u v + t * max u v" by linarith
  then show "u + t * (v - u) \<le> max u v" unfolding a by (simp add: algebra_simps)
qed

lemma closest_on_segment_in_box:
  "min (fst a) (fst b) \<le> fst (closest_on_segment p a b)"
  "fst (closest_on_segment p a b) \<le> max (fst a) (fst b)"
  "min (snd a) (snd b) \<le> snd (closest_on_segment p a b)"
  "snd (closest_on_segment p a b) \<le> max (snd a) (snd b)"
proof -
  define t where "t = clip (dot (vsub p a) (vsub b a) / dot (vsub b a) (vsub b a)) 0 1"
  have t: "0 \<le> t" "t \<le> 1" by (simp_all add: t_def clip_def)
  have q: "closest_on_segment p a b =
      (if a = b then a else (fst a + t * (fst b - fst a), snd a + t * (snd b - snd a)))"
    by (cases a; cases b) (simp add: closest_on_segment_def Let_def t_def)
  show "min (fst a) (fst b) \<le> fst (closest_on_segment p a b)"
    "fst (closest_on_segment p a b) \<le> max (fst a) (fst b)"
    "min (snd a) (snd b) \<le> snd (closest_on_segment p a b)"
    "snd (closest_on_segment p a b) \<le> max (snd a) (snd b)"
    using between_convex[OF t, of "fst a" "fst b"] between_convex[OF t, of "snd a" "snd b"]
    by (auto simp: q)
qed

lemma segment_meets_disc_sound:
  assumes "0 < r" "segment_meets_disc a b c r"
  shows "boxes_intersect (segment_box a b) (fst c - r, snd c - r, fst c + r, snd c + r)"
proof -
  let ?q = "closest_on_segment c a b"
  from assms(2) have "(fst c - fst ?q)\<^sup>2 + (snd c - snd ?q)\<^sup>2 \<le> r\<^sup>2"
    by (simp add: segment_meets_disc_def Let_def)
  from sum_squares_bound[OF this] assms(1)
  have "\<bar>fst c - fst ?q\<bar> \<le> r" "\<bar>snd c - snd ?q\<bar> \<le> r" by simp_all
  with closest_on_segment_in_box[where p=c and a=a and b=b] show ?thesis
    by (auto simp: segment_box_def abs_if split: if_splits)
qed

lemma segment_meets_box_sound:
  assumes "segment_meets_box a b bx"
  shows "boxes_intersect (segment_box a b) bx"
  using assms by (cases bx) (simp add: Let_def)

lemma intersects_bounds:
  assumes "intersects g h"
  shows "\<exists>bg bh. shape_bounds g = Some bg \<and> shape_bounds h = Some bh \<and> boxes_intersect bg bh"
proof (cases g)
  case (Buffer c r)
  show ?thesis
  proof (cases h)
    case (Buffer c' r')
    with assms \<open>g = Buffer c r\<close> show ?thesis
      using disc_meets_disc_sound[where ?c1.0=c and ?r1.0=r and ?c2.0=c' and ?r2.0=r'] by auto
  next
    case (LineString a b)
    with assms \<open>g = Buffer c r\<close> show ?thesis
      using segment_meets_disc_sound[where r=r and a=a and b=b and c=c] boxes_intersect_sym
      by auto
  next
    case (Polygon pts)
    with assms \<open>g = Buffer c r\<close> show ?thesis
      using disc_meets_box_sound[where r=r and c=c and bx="polygon_box pts"] by auto
  qed
next
  case (LineString a b)
  show ?thesis
  proof (cases h)
    case (Buffer c r)
    with assms \<open>g = LineString a b\<close> show ?thesis
      using segment_meets_disc_sound[where r=r and a=a and b=b and c=c] by auto
  next
    case (LineString c d)
    with assms \<open>g = LineString a b\<close> show ?thesis
      by (auto simp: segment_meets_segment_def)
  next
    case (Polygon pts)
    with assms \<open>g = LineString a b\<close> show ?thesis
      using segment_meets_box_sound[where a=a and b=b and bx="polygon_box pts"] by auto
  qed
next
  case (Polygon pts)
  show ?thesis
  proof (cases h)
    case (Buffer c r)
    with assms \<open>g = Polygon pts\<close> show ?thesis
      using disc_meets_box_sound[where r=r and c=c and bx="polygon_box pts"] boxes_intersect_sym
      by auto
  next
    case (LineString a b)
    with assms \<open>g = Polygon pts\<close> show ?thesis
      using segment_meets_box_sound[where a=a and b=b and bx="polygon_box pts"]
        boxes_intersect_sym by auto
  next
    case (Polygon qs)
    with assms \<open>g = Polygon pts\<close> show ?thesis by auto
  qed
qed


subsection \<open>The index and the two loops\<close>

lemma pad_shape_bounds_None:
  "shape_bounds (create_pad_shape row) = None
     \<longleftrightarrow> PAD_STACK_NAME row = Some ''CIRCLE'' \<and> pad_width row \<le> 0"
  by (cases "PAD_STACK_NAME row") (simp_all add: create_pad_shape_def Let_def)

lemma tp_shape_bounds_None:
  "shape_bounds (create_tp_shape row) = None
     \<longleftrightarrow> tp_shape_type row = Some ''CIRCLE'' \<and> tp_width row \<le> 0"
  by (cases "tp_shape_type row")
    (auto simp: create_tp_shape_def Let_def segment_box_def polygon_box_def)

lemma build_index_ok:
  assumes "\<forall>s \<in> set ps. shape_bounds (fst s) \<noteq> None"
  shows "build_index ps = Inr (map (\<lambda>s. the (shape_bounds (fst s))) ps)"
  using assms by (induction ps) auto

lemma build_index_raises:
  assumes "\<exists>s \<in> set ps. shape_bounds (fst s) = None"
  shows "build_index ps = Inl RTreeError"
  using assms
proof (induction ps)
  case Nil
  then show ?case by simp
next
  case (Cons s ps)
  obtain g n where s: "s = (g, n)" by (cases s) auto
  show ?case
  proof (cases "shape_bounds g")
    case None
    then show ?thesis by (simp add: s)
  next
    case (Some b)
    with Cons.prems s have "\<exists>s \<in> set ps. shape_bounds (fst s) = None" by auto
    from Cons.IH[OF this] Some show ?thesis by (simp add: s)
  qed
qed

lemma set_index_intersection:
  "set (index_intersection boxes query)
     = {i. i < length boxes \<and> boxes_intersect (boxes ! i) query}"
  by (auto simp: index_intersection_def)

lemma set_scan_candidates:
  "set (scan_candidates tp_geom tp_id pad_shapes candidate_indices)
     = {\<lparr>legacy_testpoint_id = tp_id, legacy_pad_id = snd (pad_shapes ! i), legacy_distance = -1\<rparr>
          | i. i \<in> set candidate_indices \<and> intersects tp_geom (fst (pad_shapes ! i))}"
  by (induction candidate_indices) (auto simp: case_prod_beta)

lemma scan_tps_legacy_ok:
  assumes "\<forall>tp \<in> set tps. shape_bounds (create_tp_shape tp) \<noteq> None"
  shows "\<exists>rs. scan_tps_legacy boxes pad_shapes tps = Inr rs
     \<and> set rs = {\<lparr>legacy_testpoint_id = testpoint_id tp, legacy_pad_id = snd (pad_shapes ! i),
                   legacy_distance = -1\<rparr>
          | tp i. tp \<in> set tps \<and> i < length boxes
              \<and> boxes_intersect (boxes ! i) (the (shape_bounds (create_tp_shape tp)))
              \<and> intersects (create_tp_shape tp) (fst (pad_shapes ! i))}"
  using assms
proof (induction tps)
  case Nil
  show ?case by simp
next
  case (Cons tp tps)
  from Cons.prems obtain q where q: "shape_bounds (create_tp_shape tp) = Some q" by auto
  from Cons.prems have "\<forall>tp \<in> set tps. shape_bounds (create_tp_shape tp) \<noteq> None" by simp
  from Cons.IH[OF this] obtain later where later:
    "scan_tps_legacy boxes pad_shapes tps = Inr later"
    "set later = {\<lparr>legacy_testpoint_id = testpoint_id tp, legacy_pad_id = snd (pad_shapes ! i),
                   legacy_distance = -1\<rparr>
          | tp i. tp \<in> set tps \<and> i < length boxes
              \<and> boxes_intersect (boxes ! i) (the (shape_bounds (create_tp_shape tp)))
              \<and> intersects (create_tp_shape tp) (fst (pad_shapes ! i))}"
    by blast
  let ?found = "scan_candidates (create_tp_shape tp) (testpoint_id tp) pad_shapes
                  (index_intersection boxes q)"
  have run: "scan_tps_legacy boxes pad_shapes (tp # tps) = Inr (?found @ later)"
    by (simp add: q later(1) Let_def)
  have found: "set ?found
      = {\<lparr>legacy_testpoint_id = testpoint_id tp, legacy_pad_id = snd (pad_shapes ! i),
           legacy_distance = -1\<rparr>
          | i. i < length boxes
              \<and> boxes_intersect (boxes ! i) (the (shape_bounds (create_tp_shape tp)))
              \<and> intersects (create_tp_shape tp) (fst (pad_shapes ! i))}"
    by (auto simp: set_scan_candidates set_index_intersection q)
  have "set (?found @ later)
      = {\<lparr>legacy_testpoint_id = testpoint_id t, legacy_pad_id = snd (pad_shapes ! i),
           legacy_distance = -1\<rparr>
          | t i. t \<in> set (tp # tps) \<and> i < length boxes
              \<and> boxes_intersect (boxes ! i) (the (shape_bounds (create_tp_shape t)))
              \<and> intersects (create_tp_shape t) (fst (pad_shapes ! i))}"
    unfolding set_append found later(2) by auto
  with run show ?case by blast
qed

lemma set_naive_matches:
  "set (naive_matches tp_df pad_df)
     = {\<lparr>legacy_testpoint_id = testpoint_id tp, legacy_pad_id = pad_component_id pad,
          legacy_distance = -1\<rparr>
          | tp pad. tp \<in> set tp_df \<and> pad \<in> set pad_df
              \<and> intersects (create_tp_shape tp) (create_pad_shape pad)}"
  by (auto simp: naive_matches_def)

lemma judge_legacy_ok:
  assumes tps: "\<forall>tp \<in> set tp_df. shape_bounds (create_tp_shape tp) \<noteq> None"
    and pads: "\<forall>pad \<in> set pad_df. shape_bounds (create_pad_shape pad) \<noteq> None"
  shows "\<exists>t. judge_tp_pad_pin_positions_legacy (Inr tp_df) (Inr pad_df) = Inr t
           \<and> columns t = legacy_columns
           \<and> set (rows t) = set (naive_matches tp_df pad_df)"
proof (cases "tp_df = [] \<or> pad_df = []")
  case True
  then have "set (naive_matches tp_df pad_df) = {}"
    unfolding set_naive_matches by auto
  with True show ?thesis
    by (auto simp: judge_tp_pad_pin_positions_legacy_def)
next
  case False
  let ?ps = "map (\<lambda>row. (create_pad_shape row, pad_component_id row)) pad_df"
  let ?boxes = "map (\<lambda>s. the (shape_bounds (fst s))) ?ps"
  have idx: "build_index ?ps = Inr ?boxes"
    using pads by (intro build_index_ok) auto
  from scan_tps_legacy_ok[OF tps, of ?boxes ?ps] obtain rs where rs:
    "scan_tps_legacy ?boxes ?ps tp_df = Inr rs"
    "set rs = {\<lparr>legacy_testpoint_id = testpoint_id tp, legacy_pad_id = snd (?ps ! i),
                 legacy_distance = -1\<rparr>
          | tp i. tp \<in> set tp_df \<and> i < length ?boxes
              \<and> boxes_intersect (?boxes ! i) (the (shape_bounds (create_tp_shape tp)))
              \<and> intersects (create_tp_shape tp) (fst (?ps ! i))}"
    by blast
  have run: "judge_tp_pad_pin_positions_legacy (Inr tp_df) (Inr pad_df)
      = Inr \<lparr>columns = legacy_columns, rows = rs\<rparr>"
    using False by (simp add: judge_tp_pad_pin_positions_legacy_def idx rs(1) del: map_map)
  have "set rs = set (naive_matches tp_df pad_df)"
  proof (intro set_eqI iffI)
    fix m assume "m \<in> set rs"
    then obtain tp i where ti: "tp \<in> set tp_df" "i < length pad_df"
      "intersects (create_tp_shape tp) (create_pad_shape (pad_df ! i))"
      "m = \<lparr>legacy_testpoint_id = testpoint_id tp,
            legacy_pad_id = pad_component_id (pad_df ! i), legacy_distance = -1\<rparr>"
      unfolding rs(2) by auto
    have "pad_df ! i \<in> set pad_df" using ti(2) by simp
    with ti show "m \<in> set (naive_matches tp_df pad_df)"
      unfolding set_naive_matches by blast
  next
    fix m assume "m \<in> set (naive_matches tp_df pad_df)"
    then obtain tp pad where tp: "tp \<in> set tp_df" "pad \<in> set pad_df"
      "intersects (create_tp_shape tp) (create_pad_shape pad)"
      "m = \<lparr>legacy_testpoint_id = testpoint_id tp, legacy_pad_id = pad_component_id pad,
            legacy_distance = -1\<rparr>"
      unfolding set_naive_matches by blast
    from tp(2) obtain i where i: "i < length pad_df" "pad_df ! i = pad"
      by (auto simp: in_set_conv_nth)
    from intersects_bounds[OF tp(3)] obtain bt bp where b:
      "shape_bounds (create_tp_shape tp) = Some bt" "shape_bounds (create_pad_shape pad) = Some bp"
      "boxes_intersect bt bp"
      by blast
    then have "boxes_intersect bp bt" using boxes_intersect_sym by blast
    with tp i b have "tp \<in> set tp_df \<and> i < length ?boxes
        \<and> boxes_intersect (?boxes ! i) (the (shape_bounds (create_tp_shape tp)))
        \<and> intersects (create_tp_shape tp) (fst (?ps ! i))
        \<and> m = \<lparr>legacy_testpoint_id = testpoint_id tp, legacy_pad_id = snd (?ps ! i),
                 legacy_distance = -1\<rparr>"
      by simp
    then show "m \<in> set rs" unfolding rs(2) by blast
  qed
  with run show ?thesis by simp
qed

lemma judge_legacy_raises:
  assumes "tp_df \<noteq> []" "\<exists>pad \<in> set pad_df. shape_bounds (create_pad_shape pad) = None"
  shows "judge_tp_pad_pin_positions_legacy (Inr tp_df) (Inr pad_df) = Inl RTreeError"
proof -
  from assms(2) have ne: "pad_df \<noteq> []" by auto
  let ?ps = "map (\<lambda>row. (create_pad_shape row, pad_component_id row)) pad_df"
  from assms(2) have "\<exists>s \<in> set ?ps. shape_bounds (fst s) = None" by auto
  from build_index_raises[OF this] assms(1) ne show ?thesis
    by (simp add: judge_tp_pad_pin_positions_legacy_def)
qed

subsection \<open>The older matcher on the example rows\<close>

lemma legacy_touching:
  "judge_tp_pad_pin_positions_legacy (Inr [tp_example]) (Inr [pad_touching_same_id])
     = Inr \<lparr>columns = [''testpoint_id'', ''pad_id'', ''distance''],
            rows = [\<lparr>legacy_testpoint_id = ''TP1'', legacy_pad_id = ''U2'',
                     legacy_distance = -1\<rparr>]\<rparr>"
  by (simp add: judge_tp_pad_pin_positions_legacy_def index_intersection_def legacy_columns_def
      create_tp_shape_def create_pad_shape_def tp_example_def pad_touching_same_id_def
      polygon_box_def Let_def)

lemma legacy_other_layer:
  "judge_tp_pad_pin_positions_legacy (Inr [tp_example]) (Inr [pad_other_layer])
     = Inr \<lparr>columns = [''testpoint_id'', ''pad_id'', ''distance''],
            rows = [\<lparr>legacy_testpoint_id = ''TP1'', legacy_pad_id = ''U3'',
                     legacy_distance = -1\<rparr>]\<rparr>"
  by (simp add: judge_tp_pad_pin_positions_legacy_def index_intersection_def legacy_columns_def
      create_tp_shape_def create_pad_shape_def tp_example_def pad_other_layer_def
      polygon_box_def Let_def)

lemma released_touching:
  "rows (judge_tp_pad_pin_positions (Inr [tp_example]) (Inr [pad_touching_same_id])) = []"
  by (simp add: judge_tp_pad_pin_positions_def scan_layer_def tp_circle_def pad_shape_def
      tp_example_def pad_touching_same_id_def dist_signed_point_to_rect_def)

lemma released_other_layer:
  "rows (judge_tp_pad_pin_positions (Inr [tp_example]) (Inr [pad_other_layer])) = []"
  by (simp add: judge_tp_pad_pin_positions_def scan_layer_def tp_example_def
      pad_other_layer_def)

lemma round_shapes:
  "create_tp_shape tp_round = Buffer (0, 0) 1"
  "create_pad_shape pad_far = Polygon [(9, 9), (11, 9), (11, 11), (9, 11)]"
  "create_pad_shape pad_corner = Polygon [(1, 1), (3, 1), (3, 3), (1, 3)]"
  "create_pad_shape pad_rect = Polygon [(0, -1), (2, -1), (2, 1), (0, 1)]"
  "create_pad_shape pad_round = Buffer (0, 2) 1"
  "create_pad_shape pad_empty_circle = Buffer (0, 0) 0"
  by (simp_all add: create_tp_shape_def create_pad_shape_def tp_round_def pad_far_def
      pad_corner_def pad_rect_def pad_round_def pad_empty_circle_def)

lemma round_boxes:
  "polygon_box [(9, 9), (11, 9), (11, 11), (9, 11)] = (9, 9, 11, 11)"
  "polygon_box [(1, 1), (3, 1), (3, 3), (1, 3)] = (1, 1, 3, 3)"
  "polygon_box [(0, -1), (2, -1), (2, 1), (0, 1)] = (0, -1, 2, 1)"
  by (simp_all add: polygon_box_def)

lemma round_candidates:
  "index_intersection [(9, 9, 11, 11), (1, 1, 3, 3), (0, -1, 2, 1), (-1, 1, 1, 3)] (-1, -1, 1, 1)
     = [1, 2, 3]"
  by (simp add: index_intersection_def upt_rec)

lemma round_exact:
  "\<not> intersects (create_tp_shape tp_round) (create_pad_shape pad_corner)"
  "intersects (create_tp_shape tp_round) (create_pad_shape pad_rect)"
  "intersects (create_tp_shape tp_round) (create_pad_shape pad_round)"
  by (simp_all add: round_shapes round_boxes axis_gap_def disc_meets_disc_def)

lemma legacy_round:
  "judge_tp_pad_pin_positions_legacy (Inr [tp_round])
     (Inr [pad_far, pad_corner, pad_rect, pad_round])
     = Inr \<lparr>columns = [''testpoint_id'', ''pad_id'', ''distance''],
            rows = [\<lparr>legacy_testpoint_id = ''TP2'', legacy_pad_id = ''U1'',
                     legacy_distance = -1\<rparr>,
                    \<lparr>legacy_testpoint_id = ''TP2'', legacy_pad_id = ''U6'',
                     legacy_distance = -1\<rparr>]\<rparr>"
  by (simp add: judge_tp_pad_pin_positions_legacy_def legacy_columns_def round_shapes
      round_boxes round_candidates axis_gap_def disc_meets_disc_def)
    (simp add: tp_round_def pad_far_def pad_corner_def pad_rect_def pad_round_def)

lemma legacy_empty_circle:
  "judge_tp_pad_pin_positions_legacy (Inr [tp_round]) (Inr [pad_empty_circle])
     = Inl RTreeError"
  by (simp add: judge_tp_pad_pin_positions_legacy_def round_shapes)

lemma released_empty_circle:
  "rows (judge_tp_pad_pin_positions (Inr [tp_round]) (Inr [pad_empty_circle]))
     = [\<lparr>subject_id = ''TP2'', object_id = ''U7_1'', layer = ''TOP'', distance = -1\<rparr>]"
  by (simp add: judge_tp_pad_pin_positions_def scan_layer_def tp_circle_def pad_shape_def
      tp_round_def pad_empty_circle_def)

text \<open>
  C1. The older matcher and the released nested-loop matcher do not return the same
  pairs on every input. A square test point and a square pad that only touch are reported
  by the older matcher (the intersection test holds on the common border) and not by the
  released one (the distance is 0); a test point and a pad that overlap on different
  layers are reported by the older matcher, which does not read the layer, and not by the
  released one; and on a circular pad of width 0 the older matcher raises where the
  released one returns a record.
\<close>

theorem spatial_index_matcher_differs_from_nested_loop:
  "judge_tp_pad_pin_positions_legacy (Inr [tp_example]) (Inr [pad_touching_same_id])
     = Inr \<lparr>columns = [''testpoint_id'', ''pad_id'', ''distance''],
            rows = [\<lparr>legacy_testpoint_id = ''TP1'', legacy_pad_id = ''U2'',
                     legacy_distance = -1\<rparr>]\<rparr>
   \<and> legacy_pair ` set [\<lparr>legacy_testpoint_id = ''TP1'', legacy_pad_id = ''U2'',
                           legacy_distance = -1\<rparr>]
     \<noteq> overlap_pair `
      set (rows (judge_tp_pad_pin_positions (Inr [tp_example]) (Inr [pad_touching_same_id])))
   \<and> judge_tp_pad_pin_positions_legacy (Inr [tp_example]) (Inr [pad_other_layer])
     = Inr \<lparr>columns = [''testpoint_id'', ''pad_id'', ''distance''],
            rows = [\<lparr>legacy_testpoint_id = ''TP1'', legacy_pad_id = ''U3'',
                     legacy_distance = -1\<rparr>]\<rparr>
   \<and> legacy_pair ` set [\<lparr>legacy_testpoint_id = ''TP1'', legacy_pad_id = ''U3'',
                           legacy_distance = -1\<rparr>]
     \<noteq> overlap_pair `
      set (rows (judge_tp_pad_pin_positions (Inr [tp_example]) (Inr [pad_other_layer])))
   \<and> judge_tp_pad_pin_positions_legacy (Inr [tp_round]) (Inr [pad_empty_circle])
     = Inl RTreeError
   \<and> rows (judge_tp_pad_pin_positions (Inr [tp_round]) (Inr [pad_empty_circle]))
     = [\<lparr>subject_id = ''TP2'', object_id = ''U7_1'', layer = ''TOP'', distance = -1\<rparr>]"
  by (simp add: legacy_touching legacy_other_layer released_touching released_other_layer
      legacy_empty_circle released_empty_circle)

text \<open>
  C1, for the spatial index alone. On tables in which every circular row has a positive
  width, the matcher with the spatial index returns a table whose records are, as a set,
  the records of the naive nested loop that applies the same exact intersection test to
  every pair of a test point and a pad: the broad phase drops only pairs whose shapes do
  not intersect. When both tables have rows and a circular pad has a width that is not
  positive, filling the index raises instead.
\<close>

theorem broad_phase_keeps_result_set:
  "((\<forall>tp \<in> set tp_df. tp_shape_type tp = Some ''CIRCLE'' \<longrightarrow> 0 < tp_width tp)
      \<and> (\<forall>pad \<in> set pad_df. PAD_STACK_NAME pad = Some ''CIRCLE'' \<longrightarrow> 0 < pad_width pad)
     \<longrightarrow> (\<exists>t. judge_tp_pad_pin_positions_legacy (Inr tp_df) (Inr pad_df) = Inr t
            \<and> columns t = [''testpoint_id'', ''pad_id'', ''distance'']
            \<and> set (rows t) = set (naive_matches tp_df pad_df)))
   \<and> (tp_df \<noteq> []
        \<and> (\<exists>pad \<in> set pad_df. PAD_STACK_NAME pad = Some ''CIRCLE'' \<and> pad_width pad \<le> 0)
     \<longrightarrow> judge_tp_pad_pin_positions_legacy (Inr tp_df) (Inr pad_df) = Inl RTreeError)"
proof (intro conjI impI)
  assume wf: "(\<forall>tp \<in> set tp_df. tp_shape_type tp = Some ''CIRCLE'' \<longrightarrow> 0 < tp_width tp)
      \<and> (\<forall>pad \<in> set pad_df. PAD_STACK_NAME pad = Some ''CIRCLE'' \<longrightarrow> 0 < pad_width pad)"
  have "\<forall>tp \<in> set tp_df. shape_bounds (create_tp_shape tp) \<noteq> None"
    using wf by (auto simp: tp_shape_bounds_None)
  moreover have "\<forall>pad \<in> set pad_df. shape_bounds (create_pad_shape pad) \<noteq> None"
    using wf by (auto simp: pad_shape_bounds_None)
  ultimately show "\<exists>t. judge_tp_pad_pin_positions_legacy (Inr tp_df) (Inr pad_df) = Inr t
            \<and> columns t = [''testpoint_id'', ''pad_id'', ''distance'']
            \<and> set (rows t) = set (naive_matches tp_df pad_df)"
    using judge_legacy_ok[of tp_df pad_df] by (simp add: legacy_columns_def)
next
  assume bad: "tp_df \<noteq> []
        \<and> (\<exists>pad \<in> set pad_df. PAD_STACK_NAME pad = Some ''CIRCLE'' \<and> pad_width pad \<le> 0)"
  then have "\<exists>pad \<in> set pad_df. shape_bounds (create_pad_shape pad) = None"
    by (simp add: pad_shape_bounds_None)
  with bad show "judge_tp_pad_pin_positions_legacy (Inr tp_df) (Inr pad_df) = Inl RTreeError"
    by (intro judge_legacy_raises) auto
qed

theorem broad_phase_keeps_result_set_witness:
  "index_intersection [(9, 9, 11, 11), (1, 1, 3, 3), (0, -1, 2, 1), (-1, 1, 1, 3)] (-1, -1, 1, 1)
     = [1, 2, 3]
   \<and> \<not> intersects (create_tp_shape tp_round) (create_pad_shape pad_corner)
   \<and> judge_tp_pad_pin_positions_legacy (Inr [tp_round])
        (Inr [pad_far, pad_corner, pad_rect, pad_round])
     = Inr \<lparr>columns = [''testpoint_id'', ''pad_id'', ''distance''],
            rows = [\<lparr>legacy_testpoint_id = ''TP2'', legacy_pad_id = ''U1'',
                     legacy_distance = -1\<rparr>,
                    \<lparr>legacy_testpoint_id = ''TP2'', legacy_pad_id = ''U6'',
                     legacy_distance = -1\<rparr>]\<rparr>
   \<and> set (naive_matches [tp_round] [pad_far, pad_corner, pad_rect, pad_round])
     = {\<lparr>legacy_testpoint_id = ''TP2'', legacy_pad_id = ''U1'', legacy_distance = -1\<rparr>,
        \<lparr>legacy_testpoint_id = ''TP2'', legacy_pad_id = ''U6'', legacy_distance = -1\<rparr>}
   \<and> judge_tp_pad_pin_positions_legacy (Inr [tp_round]) (Inr [pad_empty_circle])
     = Inl RTreeError"
proof -
  have wf: "(\<forall>tp \<in> set [tp_round]. tp_shape_type tp = Some ''CIRCLE'' \<longrightarrow> 0 < tp_width tp)
      \<and> (\<forall>pad \<in> set [pad_far, pad_corner, pad_rect, pad_round].
            PAD_STACK_NAME pad = Some ''CIRCLE'' \<longrightarrow> 0 < pad_width pad)"
    by (simp add: tp_round_def pad_far_def pad_corner_def pad_rect_def pad_round_def)
  have bad: "[tp_round] \<noteq> []
        \<and> (\<exists>pad \<in> set [pad_empty_circle].
              PAD_STACK_NAME pad = Some ''CIRCLE'' \<and> pad_width pad \<le> 0)"
    by (simp add: pad_empty_circle_def)
  note good_run =
    broad_phase_keeps_result_set [of "[tp_round]" "[pad_far, pad_corner, pad_rect, pad_round]"]
  note bad_run = broad_phase_keeps_result_set [of "[tp_round]" "[pad_empty_circle]"]
  from good_run wf obtain t where t:
    "judge_tp_pad_pin_positions_legacy (Inr [tp_round])
       (Inr [pad_far, pad_corner, pad_rect, pad_round]) = Inr t"
    "set (rows t) = set (naive_matches [tp_round] [pad_far, pad_corner, pad_rect, pad_round])"
    by blast
  from t(1) have "t = \<lparr>columns = [''testpoint_id'', ''pad_id'', ''distance''],
            rows = [\<lparr>legacy_testpoint_id = ''TP2'', legacy_pad_id = ''U1'',
                     legacy_distance = -1\<rparr>,
                    \<lparr>legacy_testpoint_id = ''TP2'', legacy_pad_id = ''U6'',
                     legacy_distance = -1\<rparr>]\<rparr>"
    by (simp add: legacy_round)
  with t(2) have naive:
    "set (naive_matches [tp_round] [pad_far, pad_corner, pad_rect, pad_round])
     = {\<lparr>legacy_testpoint_id = ''TP2'', legacy_pad_id = ''U1'', legacy_distance = -1\<rparr>,
        \<lparr>legacy_testpoint_id = ''TP2'', legacy_pad_id = ''U6'', legacy_distance = -1\<rparr>}"
    by simp
  from bad_run bad have raised:
    "judge_tp_pad_pin_positions_legacy (Inr [tp_round]) (Inr [pad_empty_circle])
       = Inl RTreeError"
    by blast
  from naive raised show ?thesis
    by (simp add: round_candidates round_exact(1) legacy_round)
qed

end
